theory Spec2Isabelle
  imports Complex_Main "HOL-Library.AList" "HOL-Library.Sublist"
begin

section \<open>Python values\<close>

text \<open>
  The values the initialisation script \<^verbatim>\<open>mcc180_init.py\<close> handles: \<^verbatim>\<open>None\<close>, strings,
  integers, floats, lists, dictionaries and references to the instrument objects it
  constructs. A dictionary is kept as the list of its items in insertion order, as a
  Python \<^verbatim>\<open>dict\<close> keeps them.
\<close>

type_synonym ref = nat

datatype val =
    VNone
  | VStr string
  | VInt int
  | VFloat real
  | VList "val list"
  | VDict "(string \<times> val) list"
  | VRef ref

fun items :: "val \<Rightarrow> (string \<times> val) list" where
  "items (VDict kvs) = kvs"
| "items _ = []"

definition keys :: "val \<Rightarrow> string list" where
  "keys d = map fst (items d)"

text \<open>\<^verbatim>\<open>d[k]\<close>; \<open>None\<close> stands for Python's \<^verbatim>\<open>KeyError\<close>.\<close>

definition getitem :: "val \<Rightarrow> string \<Rightarrow> val option" where
  "getitem d k = map_of (items d) k"

fun is_dict :: "val \<Rightarrow> bool" where
  "is_dict (VDict kvs) = True"
| "is_dict _ = False"

section \<open>Section 2 of the script: the hardware configuration\<close>

text \<open>Line 118: \<^verbatim>\<open>RO_settings = {'LO' : 5800000000, 'off_I': 0, 'off_Q': 0}\<close>.\<close>

definition RO_settings :: val where
  "RO_settings = VDict [(''LO'', VInt 5800000000), (''off_I'', VInt 0), (''off_Q'', VInt 0)]"

text \<open>Lines 120 to 158: the literal \<^verbatim>\<open>hardware_cfg\<close>, key by key.\<close>

definition hardware_cfg :: val where
  "hardware_cfg = VDict [
     (''backend'', VStr ''quantify_scheduler.backends.qblox_backend.hardware_compile''),
     (''clusterA'', VDict [
        (''ref'', VStr ''internal''),
        (''instrument_type'', VStr ''Cluster''),
        (''clusterA_module2'', VDict [
           (''instrument_type'', VStr ''QCM_RF''),
           (''complex_output_0'', VDict [
              (''lo_freq'', VFloat 5312327240),
              (''dc_mixer_offset_I'', VInt 0),
              (''dc_mixer_offset_Q'', VInt 0),
              (''portclock_configs'', VList [
                 VDict [
                    (''port'', VStr ''q00:mw''),
                    (''clock'', VStr ''q00.01''),
                    (''mixer_amp_ratio'', VInt 1),
                    (''mixer_phase_error_deg'', VInt 0)
                 ]
              ])
           ])
        ]),
        (''clusterA_module10'', VDict [
           (''instrument_type'', VStr ''QRM_RF''),
           (''complex_output_0'', VDict [
              (''lo_freq'', VFloat 7197494954),
              (''dc_mixer_offset_I'', VInt 0),
              (''dc_mixer_offset_Q'', VInt 0),
              (''portclock_configs'', VList [
                 VDict [
                    (''port'', VStr ''q00:res''),
                    (''clock'', VStr ''q00.ro''),
                    (''mixer_amp_ratio'', VInt 1),
                    (''mixer_phase_error_deg'', VInt 0)
                 ]
              ])
           ])
        ])
     ])
   ]"

subsection \<open>Reading the nested mapping\<close>

text \<open>
  The entries of a mapping whose value is itself a mapping. At the top level of the
  hardware configuration these are the clusters (every key but \<^verbatim>\<open>backend\<close>), inside a
  cluster the modules, inside a module its outputs (\<^verbatim>\<open>complex_output_0\<close>); the list
  \<^verbatim>\<open>portclock_configs\<close> sits in the output.
\<close>

definition sub_dicts :: "val \<Rightarrow> (string \<times> val) list" where
  "sub_dicts d = filter (\<lambda>kv. is_dict (snd kv)) (items d)"

definition clusters :: "val \<Rightarrow> (string \<times> val) list" where
  "clusters cfg = sub_dicts cfg"

definition modules :: "val \<Rightarrow> (string \<times> val) list" where
  "modules c = sub_dicts c"

definition outputs :: "val \<Rightarrow> (string \<times> val) list" where
  "outputs m = sub_dicts m"

text \<open>The entries of \<^verbatim>\<open>output["portclock_configs"]\<close> (none when the key is absent).\<close>

definition portclock_configs :: "val \<Rightarrow> val list" where
  "portclock_configs out =
     (case getitem out ''portclock_configs'' of Some (VList pcs) \<Rightarrow> pcs | _ \<Rightarrow> [])"

definition portclock :: "val \<Rightarrow> val option \<times> val option" where
  "portclock pc = (getitem pc ''port'', getitem pc ''clock'')"

text \<open>Every (port, clock) pair bound anywhere in a cluster, module by module.\<close>

definition cluster_portclocks :: "val \<Rightarrow> (val option \<times> val option) list" where
  "cluster_portclocks c =
     concat (map (\<lambda>m. concat (map (\<lambda>out. map portclock (portclock_configs (snd out)))
                                  (outputs (snd m))))
                 (modules c))"

definition portclock_keys :: "string set" where
  "portclock_keys = {''port'', ''clock'', ''mixer_amp_ratio'', ''mixer_phase_error_deg''}"

section \<open>The session the script builds\<close>

text \<open>
  The script is a straight line of statements against external libraries. Running it is
  modelled as an action on a session: the trace of what the script did (imports, global
  assignments, library calls, prints), the objects it constructed, the module's global
  variables, and the data store behind \<^verbatim>\<open>set_datadir\<close>. An import, a constructor, a
  library function or a method may raise; the script catches nothing, so the run ends
  there: the result is then the exception together with the session as it stood. The
  calls into the standard library (\<^verbatim>\<open>time.time\<close>, \<^verbatim>\<open>Path.home\<close>, \<^verbatim>\<open>os.path.join\<close>,
  \<^verbatim>\<open>print\<close>) are taken to return.
\<close>

datatype event =
    Import string
  | Assign string val
  | Call string "val list"
  | Method ref string "val list"
  | Print "val list"

datatype exn =
    Raised event
  | OSError string
  | NotADirectoryError
  | NameError string
  | TypeError
  | AttributeError string

text \<open>An object made by a constructor call: its class and the arguments it was given.\<close>

record instrument =
  cls :: string
  args :: "val list"

text \<open>
  The filesystem and the registered data directory: the directories that exist, the
  paths at which creating a directory is refused, and the active data directory.
\<close>

record datastore =
  dirs :: "string set"
  denied :: "string set"
  datadir :: "string option"

record session =
  trace :: "event list"
  heap :: "instrument list"
  globals :: "(string \<times> val) list"
  store :: datastore
  ticks :: nat

text \<open>
  What the script does not decide: which library calls raise, what the clock reads
  (\<open>clock env n\<close> is its reading number \<open>n\<close>, and \<open>ticks\<close> counts the readings taken),
  the user's home directory, the platform's \<^verbatim>\<open>os.path.join\<close>, and the state the cluster
  reports.
\<close>

record env =
  raises :: "event \<Rightarrow> bool"
  clock :: "nat \<Rightarrow> real"
  home :: string
  path_join :: "string \<Rightarrow> string \<Rightarrow> string"
  system_state :: val

type_synonym 'a result = "(exn \<times> session) + ('a \<times> session)"
type_synonym 'a action = "session \<Rightarrow> 'a result"

definition ret :: "'a \<Rightarrow> 'a action" where
  "ret x s = Inr (x, s)"

definition raise :: "exn \<Rightarrow> 'a action" where
  "raise e s = Inl (e, s)"

definition bnd :: "'a action \<Rightarrow> ('a \<Rightarrow> 'b action) \<Rightarrow> 'b action" where
  "bnd a f s = (case a s of Inl e \<Rightarrow> Inl e | Inr (x, s') \<Rightarrow> f x s')"

text \<open>Statements one after the other; the first exception ends the run.\<close>

fun seq :: "unit action list \<Rightarrow> unit action" where
  "seq [] = ret ()"
| "seq (a # as) = bnd a (\<lambda>_. seq as)"

definition session_of :: "'a result \<Rightarrow> session" where
  "session_of r = (case r of Inl (e, s) \<Rightarrow> s | Inr (x, s) \<Rightarrow> s)"

definition trace_of :: "'a result \<Rightarrow> event list" where
  "trace_of r = trace (session_of r)"

definition completed :: "'a result \<Rightarrow> bool" where
  "completed r = (case r of Inl e \<Rightarrow> False | Inr v \<Rightarrow> True)"

subsection \<open>Primitive steps\<close>

definition emit :: "event \<Rightarrow> session \<Rightarrow> session" where
  "emit ev s = s\<lparr>trace := trace s @ [ev]\<rparr>"

text \<open>A call into a library: recorded, and raising when the environment says so.\<close>

definition lib :: "env \<Rightarrow> event \<Rightarrow> unit action" where
  "lib env ev s = (if raises env ev then Inl (Raised ev, emit ev s) else Inr ((), emit ev s))"

text \<open>\<^verbatim>\<open>x = v\<close> at module level.\<close>

definition assign :: "string \<Rightarrow> val \<Rightarrow> unit action" where
  "assign x v s = Inr ((), emit (Assign x v) (s\<lparr>globals := AList.update x v (globals s)\<rparr>))"

text \<open>Reading the global \<^verbatim>\<open>x\<close>.\<close>

definition var :: "string \<Rightarrow> val action" where
  "var x s = (case map_of (globals s) x of None \<Rightarrow> Inl (NameError x, s) | Some v \<Rightarrow> Inr (v, s))"

text \<open>\<^verbatim>\<open>print(...)\<close>: the arguments, or for an f-string its pieces in order.\<close>

definition print :: "val list \<Rightarrow> unit action" where
  "print vs s = Inr ((), emit (Print vs) s)"

text \<open>\<^verbatim>\<open>time.time()\<close>.\<close>

definition time_time :: "env \<Rightarrow> val action" where
  "time_time env s = Inr (VFloat (clock env (ticks s)), s\<lparr>ticks := Suc (ticks s)\<rparr>)"

text \<open>\<^verbatim>\<open>a - b\<close> on floats.\<close>

fun py_sub :: "val \<Rightarrow> val \<Rightarrow> val action" where
  "py_sub (VFloat a) (VFloat b) = ret (VFloat (a - b))"
| "py_sub _ _ = raise TypeError"

text \<open>
  \<^verbatim>\<open>Class(args)\<close>: the constructor runs in the library; the new object gets the next
  reference. A keyword argument (\<^verbatim>\<open>QuantumDevice(name="quantum_device")\<close>) is kept by
  position.
\<close>

definition construct :: "env \<Rightarrow> string \<Rightarrow> val list \<Rightarrow> val action" where
  "construct env c as =
     bnd (lib env (Call c as))
       (\<lambda>_ s. Inr (VRef (length (heap s)), s\<lparr>heap := heap s @ [\<lparr>cls = c, args = as\<rparr>]\<rparr>))"

text \<open>\<^verbatim>\<open>obj.method(args)\<close>.\<close>

fun call_method :: "env \<Rightarrow> val \<Rightarrow> string \<Rightarrow> val list \<Rightarrow> unit action" where
  "call_method env (VRef r) m as = lib env (Method r m as)"
| "call_method env _ m as = raise (AttributeError m)"

text \<open>
  \<^verbatim>\<open>obj.name\<close>: an instrument's name is the name string its constructor was given as
  first argument.
\<close>

definition name_of :: "instrument \<Rightarrow> val option" where
  "name_of obj = (case args obj of VStr n # _ \<Rightarrow> Some (VStr n) | _ \<Rightarrow> None)"

fun attr_name :: "val \<Rightarrow> val action" where
  "attr_name (VRef r) = (\<lambda>s.
     if r < length (heap s) then
       (case name_of (heap s ! r) of
          Some n \<Rightarrow> Inr (n, s)
        | None \<Rightarrow> Inl (AttributeError ''name'', s))
     else Inl (AttributeError ''name'', s))"
| "attr_name _ = raise (AttributeError ''name'')"

subsection \<open>The data directory\<close>

text \<open>
  Modelled from the spec: \<^verbatim>\<open>set_datadir\<close> belongs to the external library
  \<^verbatim>\<open>quantify_core.data.handling\<close>, whose code the repository does not hold. The spec's
  contract (section 4.2): ensure the directory exists, creating it when it does not, and
  register it as the active data directory; a filesystem error of the underlying call
  propagates.
\<close>

definition set_datadir :: "string \<Rightarrow> datastore \<Rightarrow> exn + datastore" where
  "set_datadir p d =
     (if p \<in> dirs d then Inr (d\<lparr>datadir := Some p\<rparr>)
      else if p \<in> denied d then Inl (OSError p)
      else Inr (d\<lparr>dirs := insert p (dirs d), datadir := Some p\<rparr>))"

text \<open>
  Modelled from the spec: \<^verbatim>\<open>get_datadir\<close> of the same library, absent from the repository,
  returns the data directory that was registered (the script prints it as the directory
  the data directory was set to), and raises when none was.
\<close>

definition get_datadir :: "datastore \<Rightarrow> exn + string" where
  "get_datadir d = (case datadir d of None \<Rightarrow> Inl NotADirectoryError | Some p \<Rightarrow> Inr p)"

text \<open>\<^verbatim>\<open>posixpath.join\<close> on two components, one instance of \<open>path_join\<close>.\<close>

definition posix_join :: "string \<Rightarrow> string \<Rightarrow> string" where
  "posix_join a b =
     (if take 1 b = ''/'' then b
      else if a = [] \<or> last a = CHR ''/'' then a @ b
      else a @ ''/'' @ b)"

text \<open>
  The setup step of line 166 for a base path:
  \<^verbatim>\<open>set_datadir(os.path.join(base, "quantify-data"))\<close>.
\<close>

definition datadir_path :: "env \<Rightarrow> string \<Rightarrow> string" where
  "datadir_path env base = path_join env base ''quantify-data''"

definition setup_datadir :: "env \<Rightarrow> string \<Rightarrow> datastore \<Rightarrow> exn + datastore" where
  "setup_datadir env base d = set_datadir (datadir_path env base) d"

text \<open>The two calls as the script issues them: library calls, acting on the session's store.\<close>

definition on_store :: "(datastore \<Rightarrow> exn + 'a) \<Rightarrow> ('a \<Rightarrow> session \<Rightarrow> 'b \<times> session) \<Rightarrow> 'b action" where
  "on_store f k s = (case f (store s) of Inl e \<Rightarrow> Inl (e, s) | Inr x \<Rightarrow> Inr (k x s))"

definition call_set_datadir :: "env \<Rightarrow> string \<Rightarrow> unit action" where
  "call_set_datadir env base =
     bnd (lib env (Call ''set_datadir'' [VStr (datadir_path env base)]))
       (\<lambda>_. on_store (setup_datadir env base) (\<lambda>d s. ((), s\<lparr>store := d\<rparr>)))"

definition call_get_datadir :: "env \<Rightarrow> val action" where
  "call_get_datadir env =
     bnd (lib env (Call ''get_datadir'' []))
       (\<lambda>_. on_store get_datadir (\<lambda>p s. (VStr p, s)))"

section \<open>The script, statement by statement\<close>

subsection \<open>Section 1: imports (lines 43 to 110)\<close>

definition generic_imports :: "string list" where
  "generic_imports =
     [''os'', ''sys'', ''json'', ''inspect'', ''socket'', ''pathlib'', ''importlib'',
      ''numpy'', ''matplotlib.pyplot'', ''networkx'', ''IPython.display'', ''netCDF4'']"

definition quantify_imports :: "string list" where
  "quantify_imports =
     [''quantify_core.utilities.experiment_helpers'',
      ''quantify_core.data.handling'',
      ''superconducting_qubit_tools.measurement_functions'',
      ''superconducting_qubit_tools.calibration_functions'']"

definition instrument_imports :: "string list" where
  "instrument_imports =
     [''quantify_core.measurement'',
      ''quantify_core.visualization.pyqt_plotmon'',
      ''quantify_core.visualization.instrument_monitor'',
      ''qblox_instruments.qcodes_drivers.spi_rack'',
      ''quantify_scheduler.instrument_coordinator.instrument_coordinator'',
      ''quantify_scheduler.instrument_coordinator.components.qblox'',
      ''superconducting_qubit_tools.device_under_test.quantum_device'',
      ''superconducting_qubit_tools.device_under_test.sudden_nz_edge'',
      ''superconducting_qubit_tools.device_under_test.transmon_element'',
      ''qblox_instruments'',
      ''qcodes.instrument.base'',
      ''superconducting_qubit_tools.instruments'']"

text \<open>\<^verbatim>\<open>print(f"<label> {t-t0:.2f} s")\<close>, the benchmark lines 110, 232 and 258.\<close>

definition print_elapsed :: "string \<Rightarrow> string \<Rightarrow> unit action" where
  "print_elapsed label t =
     bnd (var t) (\<lambda>tv. bnd (var ''t0'') (\<lambda>t0. bnd (py_sub tv t0) (\<lambda>dt.
       print [VStr label, dt, VStr '' s''])))"

definition basic_imports :: "env \<Rightarrow> unit action list" where
  "basic_imports env =
     [lib env (Import ''time''),
      bnd (time_time env) (assign ''t0'')]
     @ map (\<lambda>m. lib env (Import m)) (generic_imports @ quantify_imports @ instrument_imports)
     @ [bnd (time_time env) (assign ''t1''),
        print_elapsed ''Finished basic imports '' ''t1'']"

subsection \<open>Section 2: the hardware configuration (lines 118 to 158)\<close>

text \<open>The value bound to \<^verbatim>\<open>RO_settings\<close> is a parameter, the script's own being \<open>RO_settings\<close>.\<close>

definition specify_hardware_configuration :: "val \<Rightarrow> unit action list" where
  "specify_hardware_configuration ro =
     [assign ''RO_settings'' ro,
      assign ''hardware_cfg'' hardware_cfg]"

subsection \<open>Section 3: basic settings (lines 166 and 167)\<close>

definition configure_basic_settings :: "env \<Rightarrow> unit action list" where
  "configure_basic_settings env =
     [call_set_datadir env (home env),
      bnd (call_get_datadir env) (\<lambda>d.
        print [VStr (CHR 0x0A # ''Data directory set to: ''), d, VStr [CHR 0x0A]])]"

subsection \<open>Section 4: instruments (lines 177 to 225)\<close>

definition instantiate_instruments :: "env \<Rightarrow> unit action list" where
  "instantiate_instruments env =
     [print [VStr ''connecting to qblox-cluster-MM.''],
      bnd (construct env ''Cluster'' [VStr ''clusterA'', VStr ''192.0.2.142''])
        (assign ''cluster0''),
      bnd (var ''cluster0'') (\<lambda>c. bnd (call_method env c ''get_system_state'' []) (\<lambda>_.
        print [VStr (''CMM system status is '' @ [CHR 0x0A]), system_state env])),
      print [VStr (''correctly connected to qblox-cluster-MM.'' @ [CHR 0x0A])],
      bnd (var ''cluster0'') (\<lambda>c. call_method env c ''reset'' []),
      bnd (var ''cluster0'') (\<lambda>c. bnd (construct env ''ClusterComponent'' [c])
        (assign ''ic_cluster0'')),
      bnd (construct env ''InstrumentCoordinator'' [VStr ''instrument_coordinator''])
        (assign ''instrument_coordinator''),
      bnd (var ''instrument_coordinator'') (\<lambda>ic. bnd (var ''ic_cluster0'') (\<lambda>c.
        call_method env ic ''add_component'' [c])),
      bnd (construct env ''MeasurementControl'' [VStr ''meas_ctrl''])
        (assign ''meas_ctrl''),
      bnd (construct env ''MeasurementControl'' [VStr ''nested_meas_ctrl''])
        (assign ''nested_meas_ctrl''),
      bnd (construct env ''PlotMonitor_pyqt'' [VStr ''plotmon''])
        (assign ''plotmon''),
      bnd (var ''meas_ctrl'') (\<lambda>mc. bnd (var ''plotmon'') (\<lambda>pm. bnd (attr_name pm) (\<lambda>n.
        call_method env mc ''instr_plotmon'' [n]))),
      bnd (construct env ''PlotMonitor_pyqt'' [VStr ''plotmon_nested''])
        (assign ''plotmon_nested''),
      bnd (var ''nested_meas_ctrl'') (\<lambda>mc. bnd (var ''plotmon_nested'') (\<lambda>pm.
        bnd (attr_name pm) (\<lambda>n. call_method env mc ''instr_plotmon'' [n]))),
      bnd (construct env ''InstrumentMonitor'' [VStr ''insmon''])
        (assign ''insmon''),
      bnd (construct env ''BasicTransmonElement'' [VStr ''q00''])
        (assign ''q0'')]"

subsection \<open>Section 5: the device registry and its elements (lines 231 to 258)\<close>

text \<open>
  Lines 243 and 244, \<^verbatim>\<open>for qubit in list_of_qubits: quantum_device.add_element(qubit)\<close>.
  The rest of the loop body (lines 246 to 251, loading the settings of the last
  datafile in a \<^verbatim>\<open>try\<close>) is commented out in the script and so is no part of the loop.
\<close>

fun for_qubit :: "env \<Rightarrow> val list \<Rightarrow> unit action" where
  "for_qubit env [] = ret ()"
| "for_qubit env (q # qs) =
     bnd (assign ''qubit'' q) (\<lambda>_.
     bnd (var ''quantum_device'') (\<lambda>qd. bnd (var ''qubit'') (\<lambda>qubit.
     bnd (call_method env qd ''add_element'' [qubit]) (\<lambda>_.
     for_qubit env qs))))"

fun iterate :: "val \<Rightarrow> val list action" where
  "iterate (VList vs) = ret vs"
| "iterate _ = raise TypeError"

definition loading_settings :: "env \<Rightarrow> unit action list" where
  "loading_settings env =
     [bnd (time_time env) (assign ''t2''),
      print_elapsed ''Finished loading instruments '' ''t2'',
      bnd (construct env ''QuantumDevice'' [VStr ''quantum_device''])
        (assign ''quantum_device''),
      bnd (var ''quantum_device'') (\<lambda>qd. bnd (var ''meas_ctrl'') (\<lambda>mc.
        bnd (attr_name mc) (\<lambda>n. call_method env qd ''instr_measurement_control'' [n]))),
      bnd (var ''quantum_device'') (\<lambda>qd. bnd (var ''instrument_coordinator'') (\<lambda>ic.
        bnd (attr_name ic) (\<lambda>n. call_method env qd ''instr_instrument_coordinator'' [n]))),
      bnd (var ''quantum_device'') (\<lambda>qd. bnd (var ''hardware_cfg'') (\<lambda>cfg.
        call_method env qd ''hardware_config'' [cfg])),
      assign ''LAST_TUID'' VNone,
      bnd (var ''q0'') (\<lambda>q. assign ''list_of_qubits'' (VList [q])),
      bnd (var ''list_of_qubits'') (\<lambda>l. bnd (iterate l) (for_qubit env)),
      bnd (time_time env) (assign ''t3''),
      print_elapsed ''Finished loading settings '' ''t3'']"

subsection \<open>The whole script\<close>

definition start :: "datastore \<Rightarrow> session" where
  "start d = \<lparr>trace = [], heap = [], globals = [], store = d, ticks = 0\<rparr>"

definition script :: "env \<Rightarrow> val \<Rightarrow> unit action list" where
  "script env ro =
     basic_imports env @ specify_hardware_configuration ro @ configure_basic_settings env
     @ instantiate_instruments env @ loading_settings env"

definition bootstrap :: "env \<Rightarrow> val \<Rightarrow> datastore \<Rightarrow> unit result" where
  "bootstrap env ro d = seq (script env ro) (start d)"

text \<open>The script as written, with its own \<^verbatim>\<open>RO_settings\<close>.\<close>

definition mcc180_init :: "env \<Rightarrow> datastore \<Rightarrow> unit result" where
  "mcc180_init env d = bootstrap env RO_settings d"

text \<open>An environment in which nothing raises, and a home directory with nothing in it yet.\<close>

definition lab_env :: env where
  "lab_env = \<lparr>raises = (\<lambda>ev. False), clock = (\<lambda>n. real n), home = ''/home/lab'',
              path_join = posix_join, system_state = VStr ''OKAY''\<rparr>"

definition lab_store :: datastore where
  "lab_store = \<lparr>dirs = {''/home/lab''}, denied = {}, datadir = None\<rparr>"
section \<open>Reading a run\<close>

text \<open>
  What the properties below look at in a trace or a session: the arguments of the calls
  of one library function or constructor, the method calls on one object, the object a
  global variable is bound to.
\<close>

definition args_of :: "string \<Rightarrow> event list \<Rightarrow> val list list" where
  "args_of f t =
     List.map_filter (\<lambda>ev. case ev of Call g as \<Rightarrow> if g = f then Some as else None | _ \<Rightarrow> None) t"

definition calls_on :: "ref \<Rightarrow> event list \<Rightarrow> (string \<times> val list) list" where
  "calls_on r t =
     List.map_filter (\<lambda>ev. case ev of Method r' m as \<Rightarrow> if r' = r then Some (m, as) else None
                           | _ \<Rightarrow> None) t"

definition object_of :: "session \<Rightarrow> string \<Rightarrow> (ref \<times> instrument) option" where
  "object_of s x =
     (case map_of (globals s) x of
        Some (VRef r) \<Rightarrow> if r < length (heap s) then Some (r, heap s ! r) else None
      | _ \<Rightarrow> None)"

subsection \<open>The stages of the bootstrap\<close>

text \<open>
  The stage an event belongs to: binding \<^verbatim>\<open>hardware_cfg\<close> is the configuration assembly,
  the data-directory calls are the environment setup, the \<^verbatim>\<open>add_element\<close> calls of the
  loop over \<^verbatim>\<open>list_of_qubits\<close> are the hydration stage, and every other constructor or
  method call builds the session. Imports, prints and the other assignments belong to
  no stage.
\<close>

datatype stage = Configuration | Environment | Construction | Hydration

fun stage_of :: "event \<Rightarrow> stage option" where
  "stage_of (Assign x v) = (if x = ''hardware_cfg'' then Some Configuration else None)"
| "stage_of (Call f as) =
     (if f = ''set_datadir'' \<or> f = ''get_datadir'' then Some Environment else Some Construction)"
| "stage_of (Method r m as) = (if m = ''add_element'' then Some Hydration else Some Construction)"
| "stage_of _ = None"

definition stages :: "event list \<Rightarrow> stage list" where
  "stages t = List.map_filter stage_of t"

text \<open>The order in which the spec lists the stages, and the order of the script's sections.\<close>

fun spec_rank :: "stage \<Rightarrow> nat" where
  "spec_rank Environment = 1"
| "spec_rank Configuration = 2"
| "spec_rank Construction = 3"
| "spec_rank Hydration = 4"

fun script_rank :: "stage \<Rightarrow> nat" where
  "script_rank Configuration = 1"
| "script_rank Environment = 2"
| "script_rank Construction = 3"
| "script_rank Hydration = 4"

definition in_order :: "(stage \<Rightarrow> nat) \<Rightarrow> event list \<Rightarrow> bool" where
  "in_order rank t = sorted (map rank (stages t))"

subsection \<open>The steps of the cluster session\<close>

text \<open>
  Lines 178 to 183: connecting to the cluster \<^verbatim>\<open>clusterA\<close> at its address, querying its
  system state, printing it, resetting the cluster.
\<close>

datatype cluster_step = Connect | Status | Report | Reset

fun cluster_step_of :: "event \<Rightarrow> cluster_step option" where
  "cluster_step_of (Call f as) =
     (if f = ''Cluster'' \<and> as = [VStr ''clusterA'', VStr ''192.0.2.142''] then Some Connect
      else None)"
| "cluster_step_of (Method r m as) =
     (if m = ''get_system_state'' then Some Status
      else if m = ''reset'' then Some Reset else None)"
| "cluster_step_of (Print vs) =
     (if take 1 vs = [VStr (''CMM system status is '' @ [CHR 0x0A])] then Some Report else None)"
| "cluster_step_of _ = None"

definition cluster_steps :: "event list \<Rightarrow> cluster_step list" where
  "cluster_steps t = List.map_filter cluster_step_of t"

definition cluster_events :: "event list \<Rightarrow> event list" where
  "cluster_events t = filter (\<lambda>ev. cluster_step_of ev \<noteq> None) t"

subsection \<open>The device registry\<close>

text \<open>
  The elements of \<^verbatim>\<open>list_of_qubits\<close>, the elements handed to \<^verbatim>\<open>add_element\<close> of an object,
  the other calls on it (the parameters the script sets), and the number of calls of
  \<^verbatim>\<open>load_settings_onto_instrument\<close>, the hydration attempts.
\<close>

definition configured_elements :: "session \<Rightarrow> val list" where
  "configured_elements s =
     (case map_of (globals s) ''list_of_qubits'' of Some (VList qs) \<Rightarrow> qs | _ \<Rightarrow> [])"

definition registered_elements :: "ref \<Rightarrow> event list \<Rightarrow> val list" where
  "registered_elements r t =
     concat (List.map_filter (\<lambda>c. if fst c = ''add_element'' then Some (snd c) else None)
               (calls_on r t))"

definition parameter_calls :: "ref \<Rightarrow> event list \<Rightarrow> (string \<times> val list) list" where
  "parameter_calls r t = filter (\<lambda>c. fst c \<noteq> ''add_element'') (calls_on r t)"

definition hydration_attempts :: "event list \<Rightarrow> nat" where
  "hydration_attempts t = length (args_of ''load_settings_onto_instrument'' t)"

subsection \<open>Replacing the value of \<^verbatim>\<open>RO_settings\<close>\<close>

text \<open>
  A session with the value bound to \<^verbatim>\<open>RO_settings\<close> replaced by \<open>v\<close>, in the global
  binding and in the event of its assignment; nothing else is touched.
\<close>

fun relabel_event :: "val \<Rightarrow> event \<Rightarrow> event" where
  "relabel_event v (Assign x w) = (if x = ''RO_settings'' then Assign x v else Assign x w)"
| "relabel_event v ev = ev"

definition relabel_binding :: "val \<Rightarrow> string \<times> val \<Rightarrow> string \<times> val" where
  "relabel_binding v b = (if fst b = ''RO_settings'' then (fst b, v) else b)"

definition relabel :: "val \<Rightarrow> session \<Rightarrow> session" where
  "relabel v s = s\<lparr>trace := map (relabel_event v) (trace s),
                   globals := map (relabel_binding v) (globals s)\<rparr>"

definition relabel_result :: "val \<Rightarrow> 'a result \<Rightarrow> 'a result" where
  "relabel_result v r =
     (case r of Inl (e, s) \<Rightarrow> Inl (e, relabel v s) | Inr (x, s) \<Rightarrow> Inr (x, relabel v s))"

definition is_RO_assign :: "event \<Rightarrow> bool" where
  "is_RO_assign ev = (case ev of Assign x w \<Rightarrow> x = ''RO_settings'' | _ \<Rightarrow> False)"

subsection \<open>Concrete runs\<close>

text \<open>The store after a run in \<open>lab_env\<close> from \<open>lab_store\<close>: the data directory made and registered.\<close>

definition lab_store' :: datastore where
  "lab_store' = \<lparr>dirs = {''/home/lab/quantify-data'', ''/home/lab''}, denied = {},
                 datadir = Some ''/home/lab/quantify-data''\<rparr>"

text \<open>A session in which the loop of line 243 would run over two elements.\<close>

definition two_qubits :: session where
  "two_qubits = \<lparr>trace = [],
     heap = [\<lparr>cls = ''QuantumDevice'', args = [VStr ''quantum_device'']\<rparr>,
             \<lparr>cls = ''BasicTransmonElement'', args = [VStr ''q00'']\<rparr>,
             \<lparr>cls = ''BasicTransmonElement'', args = [VStr ''q01'']\<rparr>],
     globals = [(''quantum_device'', VRef 0), (''q0'', VRef 1), (''q1'', VRef 2),
                (''list_of_qubits'', VList [VRef 1, VRef 2])],
     store = lab_store, ticks = 0\<rparr>"

section \<open>The complete run\<close>

text \<open>
  The events of a run in which nothing raises, section by section, and the session it
  ends in. That the script produces exactly these is proved below (\<open>calm_run\<close>,
  \<open>run_prefix\<close>, \<open>completed_run\<close>).
\<close>

definition imports_trace :: "env \<Rightarrow> event list" where
  "imports_trace env =
     [Import ''time'', Assign ''t0'' (VFloat (clock env 0))]
     @ map Import (generic_imports @ quantify_imports @ instrument_imports)
     @ [Assign ''t1'' (VFloat (clock env 1)),
        Print [VStr ''Finished basic imports '', VFloat (clock env 1 - clock env 0), VStr '' s'']]"

definition configuration_trace :: "val \<Rightarrow> event list" where
  "configuration_trace ro = [Assign ''RO_settings'' ro, Assign ''hardware_cfg'' hardware_cfg]"

definition settings_trace :: "env \<Rightarrow> event list" where
  "settings_trace env =
     [Call ''set_datadir'' [VStr (datadir_path env (home env))],
      Call ''get_datadir'' [],
      Print [VStr (CHR 0x0A # ''Data directory set to: ''),
             VStr (datadir_path env (home env)), VStr [CHR 0x0A]]]"

definition instruments_trace :: "env \<Rightarrow> event list" where
  "instruments_trace env =
     [Print [VStr ''connecting to qblox-cluster-MM.''],
      Call ''Cluster'' [VStr ''clusterA'', VStr ''192.0.2.142''],
      Assign ''cluster0'' (VRef 0),
      Method 0 ''get_system_state'' [],
      Print [VStr (''CMM system status is '' @ [CHR 0x0A]), system_state env],
      Print [VStr (''correctly connected to qblox-cluster-MM.'' @ [CHR 0x0A])],
      Method 0 ''reset'' [],
      Call ''ClusterComponent'' [VRef 0],
      Assign ''ic_cluster0'' (VRef 1),
      Call ''InstrumentCoordinator'' [VStr ''instrument_coordinator''],
      Assign ''instrument_coordinator'' (VRef 2),
      Method 2 ''add_component'' [VRef 1],
      Call ''MeasurementControl'' [VStr ''meas_ctrl''],
      Assign ''meas_ctrl'' (VRef 3),
      Call ''MeasurementControl'' [VStr ''nested_meas_ctrl''],
      Assign ''nested_meas_ctrl'' (VRef 4),
      Call ''PlotMonitor_pyqt'' [VStr ''plotmon''],
      Assign ''plotmon'' (VRef 5),
      Method 3 ''instr_plotmon'' [VStr ''plotmon''],
      Call ''PlotMonitor_pyqt'' [VStr ''plotmon_nested''],
      Assign ''plotmon_nested'' (VRef 6),
      Method 4 ''instr_plotmon'' [VStr ''plotmon_nested''],
      Call ''InstrumentMonitor'' [VStr ''insmon''],
      Assign ''insmon'' (VRef 7),
      Call ''BasicTransmonElement'' [VStr ''q00''],
      Assign ''q0'' (VRef 8)]"

definition loading_trace :: "env \<Rightarrow> event list" where
  "loading_trace env =
     [Assign ''t2'' (VFloat (clock env 2)),
      Print [VStr ''Finished loading instruments '', VFloat (clock env 2 - clock env 0),
             VStr '' s''],
      Call ''QuantumDevice'' [VStr ''quantum_device''],
      Assign ''quantum_device'' (VRef 9),
      Method 9 ''instr_measurement_control'' [VStr ''meas_ctrl''],
      Method 9 ''instr_instrument_coordinator'' [VStr ''instrument_coordinator''],
      Method 9 ''hardware_config'' [hardware_cfg],
      Assign ''LAST_TUID'' VNone,
      Assign ''list_of_qubits'' (VList [VRef 8]),
      Assign ''qubit'' (VRef 8),
      Method 9 ''add_element'' [VRef 8],
      Assign ''t3'' (VFloat (clock env 3)),
      Print [VStr ''Finished loading settings '', VFloat (clock env 3 - clock env 0),
             VStr '' s'']]"

definition complete_trace :: "env \<Rightarrow> val \<Rightarrow> event list" where
  "complete_trace env ro =
     imports_trace env @ configuration_trace ro @ settings_trace env
     @ instruments_trace env @ loading_trace env"

definition instruments :: "instrument list" where
  "instruments =
     [\<lparr>cls = ''Cluster'', args = [VStr ''clusterA'', VStr ''192.0.2.142'']\<rparr>,
      \<lparr>cls = ''ClusterComponent'', args = [VRef 0]\<rparr>,
      \<lparr>cls = ''InstrumentCoordinator'', args = [VStr ''instrument_coordinator'']\<rparr>,
      \<lparr>cls = ''MeasurementControl'', args = [VStr ''meas_ctrl'']\<rparr>,
      \<lparr>cls = ''MeasurementControl'', args = [VStr ''nested_meas_ctrl'']\<rparr>,
      \<lparr>cls = ''PlotMonitor_pyqt'', args = [VStr ''plotmon'']\<rparr>,
      \<lparr>cls = ''PlotMonitor_pyqt'', args = [VStr ''plotmon_nested'']\<rparr>,
      \<lparr>cls = ''InstrumentMonitor'', args = [VStr ''insmon'']\<rparr>,
      \<lparr>cls = ''BasicTransmonElement'', args = [VStr ''q00'']\<rparr>]"

definition quantum_device_object :: instrument where
  "quantum_device_object = \<lparr>cls = ''QuantumDevice'', args = [VStr ''quantum_device'']\<rparr>"

definition imported_globals :: "env \<Rightarrow> (string \<times> val) list" where
  "imported_globals env = [(''t0'', VFloat (clock env 0)), (''t1'', VFloat (clock env 1))]"

definition configured_globals :: "env \<Rightarrow> val \<Rightarrow> (string \<times> val) list" where
  "configured_globals env ro =
     imported_globals env @ [(''RO_settings'', ro), (''hardware_cfg'', hardware_cfg)]"

definition instrument_globals :: "env \<Rightarrow> val \<Rightarrow> (string \<times> val) list" where
  "instrument_globals env ro =
     configured_globals env ro @
     [(''cluster0'', VRef 0), (''ic_cluster0'', VRef 1), (''instrument_coordinator'', VRef 2),
      (''meas_ctrl'', VRef 3), (''nested_meas_ctrl'', VRef 4), (''plotmon'', VRef 5),
      (''plotmon_nested'', VRef 6), (''insmon'', VRef 7), (''q0'', VRef 8)]"

definition final_globals :: "env \<Rightarrow> val \<Rightarrow> (string \<times> val) list" where
  "final_globals env ro =
     instrument_globals env ro @
     [(''t2'', VFloat (clock env 2)), (''quantum_device'', VRef 9), (''LAST_TUID'', VNone),
      (''list_of_qubits'', VList [VRef 8]), (''qubit'', VRef 8), (''t3'', VFloat (clock env 3))]"

definition final :: "env \<Rightarrow> val \<Rightarrow> datastore \<Rightarrow> session" where
  "final env ro d' = \<lparr>trace = complete_trace env ro, heap = instruments @ [quantum_device_object],
     globals = final_globals env ro, store = d', ticks = 4\<rparr>"

section \<open>Runs in which a library call raises\<close>

text \<open>
  The library calls are the events that can raise: imports, constructor and function
  calls, method calls. \<open>calm env\<close> is the environment \<open>env\<close> with no call raising. An action
  under \<open>env\<close> is related to the same action under \<open>calm env\<close> when, from every session,
  either no event of the calm run raises under \<open>env\<close> and the two results are equal, or
  the run under \<open>env\<close> ends with an exception right after the first event that raises.
\<close>

fun fallible :: "event \<Rightarrow> bool" where
  "fallible (Assign x v) = False"
| "fallible (Print vs) = False"
| "fallible _ = True"

definition fails :: "env \<Rightarrow> event \<Rightarrow> bool" where
  "fails env ev = (fallible ev \<and> raises env ev)"

fun upto_raise :: "env \<Rightarrow> event list \<Rightarrow> event list option" where
  "upto_raise env [] = None"
| "upto_raise env (e # es) =
     (if fails env e then Some [e] else map_option (Cons e) (upto_raise env es))"

definition calm :: "env \<Rightarrow> env" where
  "calm env = env\<lparr>raises := \<lambda>ev. False\<rparr>"

definition sim :: "env \<Rightarrow> 'a action \<Rightarrow> 'a action \<Rightarrow> bool" where
  "sim env a b \<longleftrightarrow> (\<forall>s. \<exists>evs. trace (session_of (b s)) = trace s @ evs \<and>
      (case upto_raise env evs of
         None \<Rightarrow> a s = b s
       | Some pre \<Rightarrow> (\<exists>e s'. a s = Inl (e, s') \<and> trace s' = trace s @ pre)))"

text \<open>
  An action commutes with replacing the value of \<^verbatim>\<open>RO_settings\<close> when running it after the
  replacement gives what running it before does.
\<close>

definition eqv :: "val \<Rightarrow> 'a action \<Rightarrow> 'a action \<Rightarrow> bool" where
  "eqv v a b \<longleftrightarrow> (\<forall>s. b (relabel v s) = relabel_result v (a s))"

section \<open>Facts about the hardware configuration\<close>

lemmas cfg_defs = clusters_def modules_def outputs_def sub_dicts_def hardware_cfg_def

lemma hd_clusters_in: "hd (clusters hardware_cfg) \<in> set (clusters hardware_cfg)"
  by (simp add: cfg_defs)

lemma last_modules_in:
  "last (modules (snd (hd (clusters hardware_cfg))))
     \<in> set (modules (snd (hd (clusters hardware_cfg))))"
  by (simp add: cfg_defs)

lemma hd_outputs_in:
  "hd (outputs (snd (last (modules (snd (hd (clusters hardware_cfg)))))))
     \<in> set (outputs (snd (last (modules (snd (hd (clusters hardware_cfg)))))))"
  by (simp add: cfg_defs)

lemma path_names:
  "fst (hd (clusters hardware_cfg)) = ''clusterA'' \<and>
   fst (last (modules (snd (hd (clusters hardware_cfg))))) = ''clusterA_module10'' \<and>
   fst (hd (outputs (snd (last (modules (snd (hd (clusters hardware_cfg)))))))) =
     ''complex_output_0''"
  by (simp add: cfg_defs)

lemma cluster_portclocks_clusterA:
  "cluster_portclocks (snd (hd (clusters hardware_cfg))) =
     [(Some (VStr ''q00:mw''), Some (VStr ''q00.01'')),
      (Some (VStr ''q00:res''), Some (VStr ''q00.ro''))]"
  by (simp add: cluster_portclocks_def portclock_def portclock_configs_def cfg_defs getitem_def)

section \<open>Facts about lists\<close>

lemma map_filter_append:
  "List.map_filter f (xs @ ys) = List.map_filter f xs @ List.map_filter f ys"
  by (simp add: List.map_filter_def)

lemma prefix_map_filter: "prefix xs ys \<Longrightarrow> prefix (List.map_filter f xs) (List.map_filter f ys)"
  by (auto simp: prefix_def map_filter_append)

lemma prefix_sorted: "prefix xs ys \<Longrightarrow> sorted ys \<Longrightarrow> sorted xs"
  by (auto simp: prefix_def sorted_append)

lemma args_of_append: "args_of f (xs @ ys) = args_of f xs @ args_of f ys"
  by (simp add: args_of_def map_filter_append)

lemma calls_on_append: "calls_on r (xs @ ys) = calls_on r xs @ calls_on r ys"
  by (simp add: calls_on_def map_filter_append)

lemma registered_elements_append:
  "registered_elements r (xs @ ys) = registered_elements r xs @ registered_elements r ys"
  by (simp add: registered_elements_def calls_on_append map_filter_append)

section \<open>Sequencing\<close>

lemmas step_defs = bnd_def ret_def raise_def lib_def assign_def var_def print_def time_time_def
  construct_def emit_def call_set_datadir_def call_get_datadir_def on_store_def
  name_of_def print_elapsed_def

lemma seq_append: "seq (as @ bs) = bnd (seq as) (\<lambda>_. seq bs)"
  by (induction as) (auto simp: bnd_def ret_def fun_eq_iff split: sum.splits)

lemma seq_append_Inr: "seq as s = Inr ((), s') \<Longrightarrow> seq (as @ bs) s = seq bs s'"
  by (simp add: seq_append bnd_def)

lemma seq_append_Inl: "seq as s = Inl e \<Longrightarrow> seq (as @ bs) s = Inl e"
  by (simp add: seq_append bnd_def)

section \<open>A run under an environment against the calm run\<close>

lemma calm_simps [simp]:
  "home (calm env) = home env" "clock (calm env) = clock env"
  "system_state (calm env) = system_state env" "path_join (calm env) = path_join env"
  "raises (calm env) ev = False"
  by (simp_all add: calm_def)

lemma upto_raise_append:
  "upto_raise env (xs @ ys) =
     (case upto_raise env xs of Some p \<Rightarrow> Some p
      | None \<Rightarrow> map_option ((@) xs) (upto_raise env ys))"
  by (induction xs; cases "upto_raise env ys") (auto split: option.splits)

lemma upto_raise_prefix: "upto_raise env xs = Some p \<Longrightarrow> prefix p xs"
  by (induction xs arbitrary: p) (auto split: if_splits)

lemma upto_raise_None: "upto_raise env xs = None \<longleftrightarrow> (\<forall>e \<in> set xs. \<not> fails env e)"
  by (induction xs) auto

lemma sim_bnd:
  assumes a: "sim env a b" and f: "\<And>x. sim env (f x) (g x)"
  shows "sim env (bnd a f) (bnd b g)"
  unfolding sim_def
proof
  fix s
  from a obtain evs1 where t1: "trace (session_of (b s)) = trace s @ evs1"
    and c1: "case upto_raise env evs1 of None \<Rightarrow> a s = b s
             | Some pre \<Rightarrow> (\<exists>e s'. a s = Inl (e, s') \<and> trace s' = trace s @ pre)"
    unfolding sim_def by blast
  show "\<exists>evs. trace (session_of (bnd b g s)) = trace s @ evs \<and>
      (case upto_raise env evs of
         None \<Rightarrow> bnd a f s = bnd b g s
       | Some pre \<Rightarrow> (\<exists>e s'. bnd a f s = Inl (e, s') \<and> trace s' = trace s @ pre))"
  proof (cases "b s")
    case (Inl es)
    then have "bnd b g s = Inl es" by (simp add: bnd_def)
    with t1 c1 Inl show ?thesis
      by (intro exI [of _ evs1]) (auto simp: session_of_def bnd_def split: option.splits)
  next
    case (Inr xs)
    obtain x s1 where xs: "xs = (x, s1)" by (cases xs)
    with Inr have bs: "b s = Inr (x, s1)" by simp
    then have t1': "trace s1 = trace s @ evs1" using t1 by (simp add: session_of_def)
    from f [of x] obtain evs2 where t2: "trace (session_of (g x s1)) = trace s1 @ evs2"
      and c2: "case upto_raise env evs2 of None \<Rightarrow> f x s1 = g x s1
               | Some pre \<Rightarrow> (\<exists>e s'. f x s1 = Inl (e, s') \<and> trace s' = trace s1 @ pre)"
      unfolding sim_def by blast
    have bg: "bnd b g s = g x s1" using bs by (simp add: bnd_def)
    show ?thesis
    proof (cases "upto_raise env evs1")
      case (Some p)
      with c1 obtain e s' where "a s = Inl (e, s')" "trace s' = trace s @ p" by auto
      then show ?thesis using Some t2 t1' bg
        by (intro exI [of _ "evs1 @ evs2"]) (auto simp: upto_raise_append bnd_def)
    next
      case None
      with c1 bs have as: "a s = Inr (x, s1)" by simp
      then have af: "bnd a f s = f x s1" by (simp add: bnd_def)
      show ?thesis using None c2 t2 t1' bg af
        by (intro exI [of _ "evs1 @ evs2"]) (auto simp: upto_raise_append split: option.splits)
    qed
  qed
qed

lemma sim_quiet:
  assumes "\<And>s. \<exists>evs. trace (session_of (a s)) = trace s @ evs \<and> (\<forall>e \<in> set evs. \<not> fallible e)"
  shows "sim env a a"
  unfolding sim_def
proof
  fix s
  from assms [of s] obtain evs where t: "trace (session_of (a s)) = trace s @ evs"
    and q: "\<forall>e \<in> set evs. \<not> fallible e" by blast
  from q have "upto_raise env evs = None" by (simp add: upto_raise_None fails_def)
  with t show "\<exists>evs. trace (session_of (a s)) = trace s @ evs \<and>
      (case upto_raise env evs of None \<Rightarrow> a s = a s
       | Some pre \<Rightarrow> (\<exists>e s'. a s = Inl (e, s') \<and> trace s' = trace s @ pre))"
    by (intro exI [of _ evs]) simp
qed

lemma sim_lib: "fallible ev \<Longrightarrow> sim env (lib env ev) (lib (calm env) ev)"
  unfolding sim_def
  by (intro allI exI [of _ "[ev]"]) (simp add: lib_def calm_def session_of_def emit_def fails_def)

lemma sim_ret: "sim env (ret x) (ret x)"
  by (rule sim_quiet) (simp add: ret_def session_of_def)

lemma sim_raise: "sim env (raise e) (raise e)"
  by (rule sim_quiet) (simp add: raise_def session_of_def)

lemma sim_assign: "sim env (assign x v) (assign x v)"
  by (rule sim_quiet) (simp add: assign_def session_of_def emit_def)

lemma sim_print: "sim env (print vs) (print vs)"
  by (rule sim_quiet) (simp add: print_def session_of_def emit_def)

lemma sim_var: "sim env (var x) (var x)"
  by (rule sim_quiet) (simp add: var_def session_of_def split: option.splits)

lemma sim_time_time: "sim env (time_time env) (time_time (calm env))"
proof -
  have "time_time (calm env) = time_time env"
    by (rule ext) (simp add: time_time_def calm_def)
  moreover have "sim env (time_time env) (time_time env)"
    by (rule sim_quiet) (simp add: time_time_def session_of_def)
  ultimately show ?thesis by simp
qed

lemma sim_py_sub: "sim env (py_sub a b) (py_sub a b)"
  by (cases "(a, b)" rule: py_sub.cases) (simp_all add: sim_ret sim_raise)

lemma sim_iterate: "sim env (iterate l) (iterate l)"
  by (cases l) (simp_all add: sim_ret sim_raise)

lemma sim_attr_name: "sim env (attr_name v) (attr_name v)"
  by (cases v) (auto intro!: sim_quiet simp: raise_def session_of_def split: option.splits)

lemma sim_on_store:
  "sim env (on_store f (\<lambda>x s. (k x, s\<lparr>store := h x s\<rparr>)))
           (on_store f (\<lambda>x s. (k x, s\<lparr>store := h x s\<rparr>)))"
  by (rule sim_quiet) (simp add: on_store_def session_of_def split: sum.splits)

lemma sim_construct: "sim env (construct env c as) (construct (calm env) c as)"
  unfolding construct_def
  by (intro sim_bnd sim_lib sim_quiet) (simp_all add: session_of_def)

lemma sim_call_method: "sim env (call_method env v m as) (call_method (calm env) v m as)"
  by (cases v) (simp_all add: sim_lib sim_raise)

lemma sim_for_qubit: "sim env (for_qubit env qs) (for_qubit (calm env) qs)"
  by (induction qs) (auto intro!: sim_bnd sim_ret sim_assign sim_var sim_call_method)

lemma sim_print_elapsed: "sim env (print_elapsed l t) (print_elapsed l t)"
  unfolding print_elapsed_def
  by (intro sim_bnd sim_var sim_py_sub sim_print)

lemma sim_call_set_datadir: "sim env (call_set_datadir env b) (call_set_datadir (calm env) b)"
proof -
  have "setup_datadir (calm env) b = setup_datadir env b"
    "datadir_path (calm env) b = datadir_path env b"
    by (auto simp: setup_datadir_def datadir_path_def calm_def fun_eq_iff)
  then show ?thesis
    unfolding call_set_datadir_def
    by (auto intro!: sim_bnd sim_lib sim_on_store [where k = "\<lambda>_. ()" and h = "\<lambda>d s. d"])
qed

lemma sim_call_get_datadir: "sim env (call_get_datadir env) (call_get_datadir (calm env))"
  unfolding call_get_datadir_def
  by (auto intro!: sim_bnd sim_lib
      sim_on_store [where k = "VStr" and h = "\<lambda>d s. store s", simplified])

lemmas sim_intros = sim_bnd sim_lib sim_ret sim_raise sim_assign sim_print sim_var sim_time_time
  sim_py_sub sim_iterate sim_attr_name sim_construct sim_call_method sim_for_qubit
  sim_print_elapsed sim_call_set_datadir sim_call_get_datadir

lemmas section_defs = script_def basic_imports_def specify_hardware_configuration_def
  configure_basic_settings_def instantiate_instruments_def loading_settings_def

lemmas import_defs = generic_imports_def quantify_imports_def instrument_imports_def

lemma sim_script: "sim env (seq (script env ro)) (seq (script (calm env) ro))"
  unfolding section_defs
  apply (simp add: import_defs)
  apply (intro sim_intros; simp)
  done

section \<open>The calm run, section by section\<close>

lemmas globals_defs = final_globals_def instrument_globals_def configured_globals_def
  imported_globals_def

lemma seq_imports_calm:
  "seq (map (\<lambda>m. lib (calm env) (Import m)) ms) s =
     Inr ((), s\<lparr>trace := trace s @ map Import ms\<rparr>)"
  by (induction ms arbitrary: s) (simp_all add: step_defs)

lemma run_basic_imports:
  "seq (basic_imports (calm env)) \<lparr>trace = T, heap = H, globals = [], store = d, ticks = 0\<rparr> =
     Inr ((), \<lparr>trace = T @ imports_trace env, heap = H,
               globals = imported_globals env, store = d, ticks = 2\<rparr>)"
  unfolding basic_imports_def imports_trace_def imported_globals_def
  by (simp add: seq_append seq_imports_calm step_defs)

lemma run_specify_hardware_configuration:
  "seq (specify_hardware_configuration ro) \<lparr>trace = T, heap = H,
       globals = imported_globals env, store = d, ticks = n\<rparr> =
     Inr ((), \<lparr>trace = T @ configuration_trace ro, heap = H,
               globals = configured_globals env ro, store = d, ticks = n\<rparr>)"
  unfolding specify_hardware_configuration_def configuration_trace_def imported_globals_def
    configured_globals_def
  by (simp add: step_defs)

lemma run_configure_basic_settings:
  assumes "setup_datadir env (home env) d = Inr d'"
  shows "seq (configure_basic_settings (calm env))
           \<lparr>trace = T, heap = H, globals = G, store = d, ticks = n\<rparr> =
     Inr ((), \<lparr>trace = T @ settings_trace env, heap = H, globals = G, store = d', ticks = n\<rparr>)"
proof -
  from assms have "datadir d' = Some (datadir_path env (home env))"
    by (auto simp: setup_datadir_def set_datadir_def split: if_splits)
  with assms show ?thesis
    unfolding configure_basic_settings_def settings_trace_def
    by (simp add: step_defs setup_datadir_def datadir_path_def get_datadir_def)
qed

lemma fail_configure_basic_settings:
  assumes "setup_datadir env (home env) d = Inl e"
  shows "seq (configure_basic_settings (calm env))
           \<lparr>trace = T, heap = H, globals = G, store = d, ticks = n\<rparr> =
     Inl (e, \<lparr>trace = T @ take 1 (settings_trace env), heap = H, globals = G, store = d,
              ticks = n\<rparr>)"
  using assms unfolding configure_basic_settings_def settings_trace_def
  by (simp add: step_defs setup_datadir_def datadir_path_def)

lemma run_instantiate_instruments:
  "seq (instantiate_instruments (calm env)) \<lparr>trace = T, heap = [],
       globals = configured_globals env ro, store = d, ticks = n\<rparr> =
     Inr ((), \<lparr>trace = T @ instruments_trace env, heap = instruments,
               globals = instrument_globals env ro, store = d, ticks = n\<rparr>)"
  unfolding instantiate_instruments_def instruments_trace_def instruments_def globals_defs
  by (simp add: step_defs)

lemma run_loading_settings:
  "seq (loading_settings (calm env)) \<lparr>trace = T, heap = instruments,
       globals = instrument_globals env ro, store = d, ticks = 2\<rparr> =
     Inr ((), \<lparr>trace = T @ loading_trace env, heap = instruments @ [quantum_device_object],
               globals = final_globals env ro, store = d, ticks = 4\<rparr>)"
  unfolding loading_settings_def loading_trace_def instruments_def globals_defs
    quantum_device_object_def
  by (simp add: step_defs)

lemma calm_run:
  assumes "setup_datadir env (home env) d = Inr d'"
  shows "bootstrap (calm env) ro d = Inr ((), final env ro d')"
proof -
  have "bootstrap (calm env) ro d =
      seq (specify_hardware_configuration ro @ configure_basic_settings (calm env)
           @ instantiate_instruments (calm env) @ loading_settings (calm env))
        \<lparr>trace = [] @ imports_trace env, heap = [], globals = imported_globals env,
         store = d, ticks = 2\<rparr>"
    unfolding bootstrap_def script_def start_def
    by (rule seq_append_Inr) (rule run_basic_imports)
  also have "\<dots> = seq (configure_basic_settings (calm env)
           @ instantiate_instruments (calm env) @ loading_settings (calm env))
        \<lparr>trace = ([] @ imports_trace env) @ configuration_trace ro, heap = [],
         globals = configured_globals env ro, store = d, ticks = 2\<rparr>"
    by (rule seq_append_Inr) (rule run_specify_hardware_configuration)
  also have "\<dots> = seq (instantiate_instruments (calm env) @ loading_settings (calm env))
        \<lparr>trace = (([] @ imports_trace env) @ configuration_trace ro) @ settings_trace env,
         heap = [], globals = configured_globals env ro, store = d', ticks = 2\<rparr>"
    by (rule seq_append_Inr) (rule run_configure_basic_settings [OF assms])
  also have "\<dots> = seq (loading_settings (calm env))
        \<lparr>trace = ((([] @ imports_trace env) @ configuration_trace ro) @ settings_trace env)
                  @ instruments_trace env,
         heap = instruments, globals = instrument_globals env ro, store = d', ticks = 2\<rparr>"
    by (rule seq_append_Inr) (rule run_instantiate_instruments)
  also have "\<dots> = Inr ((), \<lparr>trace = (((([] @ imports_trace env) @ configuration_trace ro)
                  @ settings_trace env) @ instruments_trace env) @ loading_trace env,
         heap = instruments @ [quantum_device_object], globals = final_globals env ro,
         store = d', ticks = 4\<rparr>)"
    by (rule run_loading_settings)
  finally show ?thesis by (simp add: final_def complete_trace_def)
qed

lemma calm_run_fail:
  assumes "setup_datadir env (home env) d = Inl e"
  shows "\<exists>s. bootstrap (calm env) ro d = Inl (e, s) \<and>
           trace s = imports_trace env @ configuration_trace ro @ take 1 (settings_trace env)"
proof -
  have "bootstrap (calm env) ro d =
      seq (specify_hardware_configuration ro @ configure_basic_settings (calm env)
           @ instantiate_instruments (calm env) @ loading_settings (calm env))
        \<lparr>trace = [] @ imports_trace env, heap = [], globals = imported_globals env,
         store = d, ticks = 2\<rparr>"
    unfolding bootstrap_def script_def start_def
    by (rule seq_append_Inr) (rule run_basic_imports)
  also have "\<dots> = seq (configure_basic_settings (calm env)
           @ instantiate_instruments (calm env) @ loading_settings (calm env))
        \<lparr>trace = ([] @ imports_trace env) @ configuration_trace ro, heap = [],
         globals = configured_globals env ro, store = d, ticks = 2\<rparr>"
    by (rule seq_append_Inr) (rule run_specify_hardware_configuration)
  also have "\<dots> = Inl (e, \<lparr>trace = (([] @ imports_trace env) @ configuration_trace ro)
                  @ take 1 (settings_trace env),
         heap = [], globals = configured_globals env ro, store = d, ticks = 2\<rparr>)"
    by (rule seq_append_Inl) (rule fail_configure_basic_settings [OF assms])
  finally show ?thesis by simp
qed

lemma calm_prefix: "prefix (trace_of (bootstrap (calm env) ro d)) (complete_trace env ro)"
proof (cases "setup_datadir env (home env) d")
  case (Inl e)
  have "prefix (take 1 (settings_trace env))
      (settings_trace env @ instruments_trace env @ loading_trace env)"
    by (simp add: settings_trace_def)
  with calm_run_fail [OF Inl, of ro] show ?thesis
    by (auto simp: complete_trace_def trace_of_def session_of_def)
next
  case (Inr d')
  then show ?thesis
    by (simp add: calm_run [OF Inr] trace_of_def session_of_def final_def)
qed

section \<open>Every run\<close>

lemma run_cases:
  obtains (same) "bootstrap env ro d = bootstrap (calm env) ro d"
     "\<forall>e \<in> set (trace_of (bootstrap (calm env) ro d)). \<not> fails env e"
  | (abort) e s' where "bootstrap env ro d = Inl (e, s')"
       "prefix (trace s') (trace_of (bootstrap (calm env) ro d))"
       "\<exists>ev \<in> set (trace_of (bootstrap (calm env) ro d)). fails env ev"
proof -
  from sim_script [of env ro] obtain evs where
    t: "trace (session_of (seq (script (calm env) ro) (start d))) = trace (start d) @ evs"
    and c: "case upto_raise env evs of
         None \<Rightarrow> seq (script env ro) (start d) = seq (script (calm env) ro) (start d)
       | Some pre \<Rightarrow> (\<exists>e s'. seq (script env ro) (start d) = Inl (e, s') \<and>
                              trace s' = trace (start d) @ pre)"
    unfolding sim_def by blast
  have evs: "trace_of (bootstrap (calm env) ro d) = evs"
    using t by (simp add: trace_of_def bootstrap_def start_def)
  show thesis
  proof (cases "upto_raise env evs")
    case None
    with c evs show thesis
      by (intro same) (auto simp: bootstrap_def upto_raise_None)
  next
    case (Some pre)
    with c obtain e s' where "bootstrap env ro d = Inl (e, s')" "trace s' = pre"
      by (auto simp: bootstrap_def start_def)
    moreover have "prefix pre evs" using Some by (rule upto_raise_prefix)
    moreover have "\<exists>ev \<in> set evs. fails env ev"
      using Some upto_raise_None [of env evs] by auto
    ultimately show thesis using evs by (intro abort) auto
  qed
qed

text \<open>The trace of any run, completed or not, is an initial part of the complete trace.\<close>

lemma run_prefix: "prefix (trace_of (bootstrap env ro d)) (complete_trace env ro)"
proof (cases rule: run_cases [of env ro d])
  case same
  then show ?thesis by (simp add: calm_prefix)
next
  case (abort e s')
  then show ?thesis
    using calm_prefix [of env ro d] by (auto simp: trace_of_def session_of_def)
qed

text \<open>A run that completes made the data directory and ends in the final session.\<close>

lemma completed_run:
  assumes "completed (bootstrap env ro d)"
  shows "\<exists>d'. setup_datadir env (home env) d = Inr d' \<and>
              bootstrap env ro d = Inr ((), final env ro d')"
proof (cases rule: run_cases [of env ro d])
  case same
  show ?thesis
  proof (cases "setup_datadir env (home env) d")
    case (Inl e)
    have "\<not> completed (bootstrap (calm env) ro d)"
      using calm_run_fail [OF Inl, of ro] by (auto simp: completed_def)
    with assms same show ?thesis by simp
  next
    case (Inr d')
    with same show ?thesis by (simp add: calm_run)
  qed
next
  case (abort e s')
  with assms show ?thesis by (simp add: completed_def)
qed

text \<open>When no library call of the complete trace raises and the directory can be made, the run completes.\<close>

lemma run_completes:
  assumes "\<forall>ev \<in> set (complete_trace env ro). \<not> fails env ev"
    and "setup_datadir env (home env) d = Inr d'"
  shows "bootstrap env ro d = Inr ((), final env ro d')"
proof (cases rule: run_cases [of env ro d])
  case same
  then show ?thesis by (simp add: calm_run [OF assms(2)])
next
  case (abort e s')
  with assms show ?thesis
    by (auto simp: calm_run [OF assms(2)] trace_of_def session_of_def final_def)
qed

lemma final_simps:
  "trace (final env ro d') = complete_trace env ro"
  "heap (final env ro d') = instruments @ [quantum_device_object]"
  "globals (final env ro d') = final_globals env ro"
  "store (final env ro d') = d'"
  by (simp_all add: final_def)

lemma final_objects:
  "object_of (final env ro d') ''quantum_device'' = Some (9, quantum_device_object)"
  "object_of (final env ro d') ''meas_ctrl'' =
     Some (3, \<lparr>cls = ''MeasurementControl'', args = [VStr ''meas_ctrl'']\<rparr>)"
  "object_of (final env ro d') ''nested_meas_ctrl'' =
     Some (4, \<lparr>cls = ''MeasurementControl'', args = [VStr ''nested_meas_ctrl'']\<rparr>)"
  "object_of (final env ro d') ''plotmon'' =
     Some (5, \<lparr>cls = ''PlotMonitor_pyqt'', args = [VStr ''plotmon'']\<rparr>)"
  "object_of (final env ro d') ''plotmon_nested'' =
     Some (6, \<lparr>cls = ''PlotMonitor_pyqt'', args = [VStr ''plotmon_nested'']\<rparr>)"
  "object_of (final env ro d') ''instrument_coordinator'' =
     Some (2, \<lparr>cls = ''InstrumentCoordinator'', args = [VStr ''instrument_coordinator'']\<rparr>)"
  by (simp_all add: object_of_def final_def globals_defs instruments_def)

section \<open>The complete trace, read\<close>

lemmas trace_defs = complete_trace_def imports_trace_def configuration_trace_def
  settings_trace_def instruments_trace_def loading_trace_def import_defs

lemma stages_complete:
  "stages (complete_trace env ro) =
     [Configuration, Environment, Environment] @ replicate 18 Construction @ [Hydration]"
  by (simp add: stages_def List.map_filter_def trace_defs eval_nat_numeral)

lemma cluster_steps_complete:
  "cluster_steps (complete_trace env ro) = [Connect, Status, Report, Reset]"
  by (simp add: cluster_steps_def List.map_filter_def trace_defs)

lemma cluster_events_complete:
  "cluster_events (complete_trace env ro) =
     [Call ''Cluster'' [VStr ''clusterA'', VStr ''192.0.2.142''],
      Method 0 ''get_system_state'' [],
      Print [VStr (''CMM system status is '' @ [CHR 0x0A]), system_state env],
      Method 0 ''reset'' []]"
  by (simp add: cluster_events_def trace_defs)

lemma args_of_set_datadir:
  "args_of ''set_datadir'' (complete_trace env ro) = [[VStr (datadir_path env (home env))]]"
  by (simp add: args_of_def List.map_filter_def trace_defs)

lemma args_of_MeasurementControl:
  "args_of ''MeasurementControl'' (complete_trace env ro) =
     [[VStr ''meas_ctrl''], [VStr ''nested_meas_ctrl'']]"
  by (simp add: args_of_def List.map_filter_def trace_defs)

lemma calls_on_quantum_device:
  "calls_on 9 (complete_trace env ro) =
     [(''instr_measurement_control'', [VStr ''meas_ctrl'']),
      (''instr_instrument_coordinator'', [VStr ''instrument_coordinator'']),
      (''hardware_config'', [hardware_cfg]),
      (''add_element'', [VRef 8])]"
  by (simp add: calls_on_def List.map_filter_def trace_defs)

lemma calls_on_meas_ctrl:
  "calls_on 3 (complete_trace env ro) = [(''instr_plotmon'', [VStr ''plotmon''])]"
  "calls_on 4 (complete_trace env ro) = [(''instr_plotmon'', [VStr ''plotmon_nested''])]"
  by (simp_all add: calls_on_def List.map_filter_def trace_defs)

section \<open>The run in the lab environment\<close>

lemma lab_setup: "setup_datadir lab_env (home lab_env) lab_store = Inr lab_store'"
  by (simp add: setup_datadir_def set_datadir_def datadir_path_def lab_env_def lab_store_def
      lab_store'_def posix_join_def)

lemma lab_run: "mcc180_init lab_env lab_store = Inr ((), final lab_env RO_settings lab_store')"
  unfolding mcc180_init_def
  by (rule run_completes [OF _ lab_setup]) (simp add: fails_def lab_env_def)

lemma lab_completed: "completed (mcc180_init lab_env lab_store)"
  by (simp add: lab_run completed_def)

section \<open>The loop over the device elements\<close>

lemma for_qubit_attempts:
  "hydration_attempts (trace_of (for_qubit env qs s)) = hydration_attempts (trace s)"
proof (induction qs arbitrary: s)
  case Nil
  show ?case by (simp add: ret_def trace_of_def session_of_def)
next
  case (Cons q qs)
  show ?case
  proof (cases "map_of (globals s) ''quantum_device''")
    case None
    then show ?thesis
      by (simp add: step_defs trace_of_def session_of_def update_conv' hydration_attempts_def
          args_of_append) (simp add: args_of_def List.map_filter_def)
  next
    case (Some qd)
    show ?thesis
    proof (cases qd)
      case (VRef r)
      with Some Cons.IH show ?thesis
        apply (simp add: step_defs update_conv')
        apply (auto simp: trace_of_def session_of_def hydration_attempts_def args_of_append)
         apply (simp_all add: args_of_def List.map_filter_def)
        done
    qed (use Some in \<open>simp_all add: step_defs trace_of_def session_of_def update_conv'
          hydration_attempts_def args_of_append\<close>, simp_all add: args_of_def List.map_filter_def)
  qed
qed

lemma for_qubit_registers:
  assumes "map_of (globals s) ''quantum_device'' = Some (VRef qd)"
    and "\<forall>q \<in> set qs. \<not> raises env (Method qd ''add_element'' [q])"
  shows "completed (for_qubit env qs s) \<and>
     registered_elements qd (trace_of (for_qubit env qs s)) =
       registered_elements qd (trace s) @ qs"
  using assms
proof (induction qs arbitrary: s)
  case Nil
  show ?case by (simp add: ret_def trace_of_def session_of_def completed_def)
next
  case (Cons q qs)
  let ?s' = "emit (Method qd ''add_element'' [q])
      (emit (Assign ''qubit'' q) (s\<lparr>globals := AList.update ''qubit'' q (globals s)\<rparr>))"
  have step: "for_qubit env (q # qs) s = for_qubit env qs ?s'"
    using Cons.prems by (simp add: step_defs update_conv')
  have g: "map_of (globals ?s') ''quantum_device'' = Some (VRef qd)"
    using Cons.prems by (simp add: emit_def update_conv')
  have t: "registered_elements qd (trace ?s') = registered_elements qd (trace s) @ [q]"
    by (simp add: emit_def registered_elements_append)
       (simp add: registered_elements_def calls_on_def List.map_filter_def)
  from Cons.prems(2) have "\<forall>q \<in> set qs. \<not> raises env (Method qd ''add_element'' [q])"
    by simp
  from Cons.IH [OF g this] show ?case
    unfolding step t by simp
qed

section \<open>Replacing the value of \<^verbatim>\<open>RO_settings\<close> commutes with the script\<close>

lemma relabel_simps [simp]:
  "trace (relabel v s) = map (relabel_event v) (trace s)"
  "globals (relabel v s) = map (relabel_binding v) (globals s)"
  "heap (relabel v s) = heap s" "store (relabel v s) = store s" "ticks (relabel v s) = ticks s"
  by (simp_all add: relabel_def)

lemma map_of_relabel:
  "x \<noteq> ''RO_settings'' \<Longrightarrow> map_of (map (relabel_binding v) al) x = map_of al x"
  by (induction al) (auto simp: relabel_binding_def)

lemma update_relabel:
  "x \<noteq> ''RO_settings'' \<Longrightarrow>
     AList.update x w (map (relabel_binding v) al) = map (relabel_binding v) (AList.update x w al)"
  by (induction al) (auto simp: relabel_binding_def)

lemma update_relabel_RO:
  "AList.update ''RO_settings'' v (map (relabel_binding v) al) =
     map (relabel_binding v) (AList.update ''RO_settings'' ro al)"
  by (induction al) (auto simp: relabel_binding_def)

lemma relabel_emit:
  "relabel v (emit ev s) = emit (relabel_event v ev) (relabel v s)"
  by (simp add: relabel_def emit_def)

lemma eqv_bnd:
  assumes "eqv v a b" and "\<And>x. eqv v (f x) (g x)"
  shows "eqv v (bnd a f) (bnd b g)"
  using assms unfolding eqv_def
  by (auto simp: bnd_def relabel_result_def split: sum.splits)

lemma eqv_ret: "eqv v (ret x) (ret x)"
  by (simp add: eqv_def ret_def relabel_result_def)

lemma eqv_raise: "eqv v (raise e) (raise e)"
  by (simp add: eqv_def raise_def relabel_result_def)

lemma eqv_lib: "relabel_event v ev = ev \<Longrightarrow> eqv v (lib env ev) (lib env ev)"
  by (simp add: eqv_def lib_def relabel_result_def relabel_emit)

lemma eqv_assign: "x \<noteq> ''RO_settings'' \<Longrightarrow> eqv v (assign x w) (assign x w)"
  by (simp add: eqv_def assign_def relabel_result_def relabel_def emit_def update_relabel)

lemma eqv_assign_RO: "eqv v (assign ''RO_settings'' ro) (assign ''RO_settings'' v)"
  by (simp add: eqv_def assign_def relabel_result_def relabel_def emit_def update_relabel_RO)

lemma eqv_var: "x \<noteq> ''RO_settings'' \<Longrightarrow> eqv v (var x) (var x)"
  by (simp add: eqv_def var_def relabel_result_def map_of_relabel split: option.splits)

lemma eqv_print: "eqv v (print vs) (print vs)"
  by (simp add: eqv_def print_def relabel_result_def relabel_emit)

lemma eqv_time_time: "eqv v (time_time env) (time_time env)"
  by (simp add: eqv_def time_time_def relabel_result_def relabel_def)

lemma eqv_py_sub: "eqv v (py_sub a b) (py_sub a b)"
  by (cases "(a, b)" rule: py_sub.cases) (simp_all add: eqv_ret eqv_raise)

lemma eqv_iterate: "eqv v (iterate l) (iterate l)"
  by (cases l) (simp_all add: eqv_ret eqv_raise)

lemma eqv_attr_name: "eqv v (attr_name x) (attr_name x)"
  by (cases x) (auto simp: eqv_def raise_def relabel_result_def split: option.splits)

lemma eqv_construct: "eqv v (construct env c as) (construct env c as)"
  unfolding construct_def
  by (intro eqv_bnd eqv_lib) (simp_all add: eqv_def relabel_result_def relabel_def)

lemma eqv_call_method: "eqv v (call_method env x m as) (call_method env x m as)"
  by (cases x) (simp_all add: eqv_lib eqv_raise)

lemma eqv_for_qubit: "eqv v (for_qubit env qs) (for_qubit env qs)"
  by (induction qs) (auto intro!: eqv_bnd eqv_ret eqv_assign eqv_var eqv_call_method)

lemma eqv_print_elapsed:
  "t \<noteq> ''RO_settings'' \<Longrightarrow> eqv v (print_elapsed l t) (print_elapsed l t)"
  unfolding print_elapsed_def
  by (intro eqv_bnd eqv_var eqv_py_sub eqv_print) simp_all

lemma eqv_call_set_datadir: "eqv v (call_set_datadir env b) (call_set_datadir env b)"
  unfolding call_set_datadir_def
  by (intro eqv_bnd eqv_lib)
     (simp_all add: eqv_def on_store_def relabel_result_def relabel_def split: sum.splits)

lemma eqv_call_get_datadir: "eqv v (call_get_datadir env) (call_get_datadir env)"
  unfolding call_get_datadir_def
  by (intro eqv_bnd eqv_lib)
     (simp_all add: eqv_def on_store_def relabel_result_def split: sum.splits)

lemmas eqv_intros = eqv_bnd eqv_lib eqv_ret eqv_raise eqv_assign_RO eqv_assign eqv_print eqv_var
  eqv_time_time eqv_py_sub eqv_iterate eqv_attr_name eqv_construct eqv_call_method eqv_for_qubit
  eqv_print_elapsed eqv_call_set_datadir eqv_call_get_datadir

lemma eqv_script: "eqv v (seq (script env ro)) (seq (script env v))"
  unfolding section_defs
  apply (simp add: import_defs)
  apply (intro eqv_intros; simp)
  done

lemma relabel_start: "relabel v (start d) = start d"
  by (simp add: relabel_def start_def)

lemma bootstrap_relabel: "bootstrap env v d = relabel_result v (bootstrap env ro d)"
  using eqv_script [of v env ro] unfolding eqv_def bootstrap_def
  by (metis relabel_start)

lemma delete_relabel:
  "AList.delete ''RO_settings'' (map (relabel_binding v) al) = AList.delete ''RO_settings'' al"
  by (induction al) (auto simp: relabel_binding_def)

lemma filter_relabel:
  "filter (\<lambda>ev. \<not> is_RO_assign ev) (map (relabel_event v) t) =
     filter (\<lambda>ev. \<not> is_RO_assign ev) t"
proof (induction t)
  case Nil
  show ?case by simp
next
  case (Cons ev t)
  then show ?case by (cases ev) (auto simp: is_RO_assign_def)
qed

lemma session_of_relabel: "session_of (relabel_result v r) = relabel v (session_of r)"
  by (auto simp: session_of_def relabel_result_def split: sum.splits)

lemma completed_relabel: "completed (relabel_result v r) = completed r"
  by (auto simp: completed_def relabel_result_def split: sum.splits)

section \<open>The claims\<close>

subsection \<open>The shape of the hardware configuration\<close>

text \<open>
  Claim C1, as stated: every module entry has a \<^verbatim>\<open>portclock_configs\<close> value of its own. The
  module \<^verbatim>\<open>clusterA_module2\<close> refutes it, and so does \<^verbatim>\<open>clusterA_module10\<close>: the keys of a
  module entry are \<^verbatim>\<open>instrument_type\<close> and \<^verbatim>\<open>complex_output_0\<close> only (lines 125 to 127 and
  141 to 143), and \<^verbatim>\<open>portclock_configs\<close> is a key of the output below it.
\<close>

theorem module_portclock_configs_counterexample:
  "fst (hd (modules (snd (hd (clusters hardware_cfg))))) = ''clusterA_module2'' \<and>
   keys (snd (hd (modules (snd (hd (clusters hardware_cfg)))))) =
     [''instrument_type'', ''complex_output_0''] \<and>
   getitem (snd (hd (modules (snd (hd (clusters hardware_cfg)))))) ''portclock_configs'' = None \<and>
   fst (last (modules (snd (hd (clusters hardware_cfg))))) = ''clusterA_module10'' \<and>
   keys (snd (last (modules (snd (hd (clusters hardware_cfg)))))) =
     [''instrument_type'', ''complex_output_0''] \<and>
   getitem (snd (last (modules (snd (hd (clusters hardware_cfg)))))) ''portclock_configs'' = None"
  by (simp add: cfg_defs keys_def getitem_def)

text \<open>
  Claim C1, amended. The hardware configuration has the key \<^verbatim>\<open>backend\<close>; every cluster in
  it has the keys \<^verbatim>\<open>ref\<close> and \<^verbatim>\<open>instrument_type\<close>; every module of a cluster has an output,
  and in every output of every module \<^verbatim>\<open>portclock_configs\<close> is a non-empty list each of
  whose entries is a mapping with exactly the four keys port, clock, mixer_amp_ratio and
  mixer_phase_error_deg.
\<close>

theorem hardware_cfg_shape:
  "''backend'' \<in> set (keys hardware_cfg) \<and>
   (\<forall>c \<in> set (clusters hardware_cfg).
      ''ref'' \<in> set (keys (snd c)) \<and> ''instrument_type'' \<in> set (keys (snd c)) \<and>
      (\<forall>m \<in> set (modules (snd c)).
         outputs (snd m) \<noteq> [] \<and>
         (\<forall>out \<in> set (outputs (snd m)).
            (\<exists>pcs. getitem (snd out) ''portclock_configs'' = Some (VList pcs) \<and> pcs \<noteq> [] \<and>
               (\<forall>pc \<in> set pcs. is_dict pc \<and> distinct (keys pc) \<and>
                                 set (keys pc) = portclock_keys)))))"
  unfolding list_all_iff [symmetric]
  by (simp add: hardware_cfg_def keys_def clusters_def modules_def outputs_def sub_dicts_def
      getitem_def portclock_keys_def insert_commute)

text \<open>
  The cluster \<^verbatim>\<open>clusterA\<close>, its module \<^verbatim>\<open>clusterA_module10\<close> and that module's output
  \<^verbatim>\<open>complex_output_0\<close> are such entries.
\<close>

theorem hardware_cfg_shape_witness:
  "fst (hd (clusters hardware_cfg)) = ''clusterA'' \<and>
   fst (last (modules (snd (hd (clusters hardware_cfg))))) = ''clusterA_module10'' \<and>
   fst (hd (outputs (snd (last (modules (snd (hd (clusters hardware_cfg)))))))) =
     ''complex_output_0'' \<and>
   ''ref'' \<in> set (keys (snd (hd (clusters hardware_cfg)))) \<and>
   (\<exists>pcs. getitem (snd (hd (outputs (snd (last (modules (snd (hd (clusters hardware_cfg)))))))))
            ''portclock_configs'' = Some (VList pcs) \<and> pcs \<noteq> [] \<and>
          list_all (\<lambda>pc. set (keys pc) = portclock_keys) pcs)"
proof -
  let ?c = "hd (clusters hardware_cfg)"
  let ?m = "last (modules (snd ?c))"
  let ?out = "hd (outputs (snd ?m))"
  from hardware_cfg_shape hd_clusters_in
  have c: "''ref'' \<in> set (keys (snd ?c))"
    and ms: "\<forall>m \<in> set (modules (snd ?c)). \<forall>out \<in> set (outputs (snd m)).
            (\<exists>pcs. getitem (snd out) ''portclock_configs'' = Some (VList pcs) \<and> pcs \<noteq> [] \<and>
               (\<forall>pc \<in> set pcs. is_dict pc \<and> distinct (keys pc) \<and>
                                 set (keys pc) = portclock_keys))"
    by blast+
  from ms last_modules_in hd_outputs_in
  obtain pcs where "getitem (snd ?out) ''portclock_configs'' = Some (VList pcs)" "pcs \<noteq> []"
    "\<forall>pc \<in> set pcs. set (keys pc) = portclock_keys"
    by blast
  then have "\<exists>pcs. getitem (snd ?out) ''portclock_configs'' = Some (VList pcs) \<and> pcs \<noteq> [] \<and>
          list_all (\<lambda>pc. set (keys pc) = portclock_keys) pcs"
    by (auto simp: list_all_iff)
  with c path_names show ?thesis by blast
qed

text \<open>
  Claim C5. In every cluster of the hardware configuration the (port, clock) pairs bound
  by the \<^verbatim>\<open>portclock_configs\<close> entries of all its modules are pairwise different.
\<close>

theorem portclocks_unique:
  "\<forall>c \<in> set (clusters hardware_cfg). distinct (cluster_portclocks (snd c))"
  unfolding list_all_iff [symmetric]
  by (simp add: cluster_portclocks_def portclock_def portclock_configs_def cfg_defs getitem_def)

theorem portclocks_unique_witness:
  "cluster_portclocks (snd (hd (clusters hardware_cfg))) =
     [(Some (VStr ''q00:mw''), Some (VStr ''q00.01'')),
      (Some (VStr ''q00:res''), Some (VStr ''q00.ro''))] \<and>
   distinct (cluster_portclocks (snd (hd (clusters hardware_cfg))))"
  using portclocks_unique hd_clusters_in cluster_portclocks_clusterA by blast

subsection \<open>The order of the bootstrap\<close>

text \<open>
  Claim C3, as stated: the stages run in the order environment setup, configuration
  assembly, session construction, hydration. The run in the lab environment refutes it:
  \<^verbatim>\<open>hardware_cfg\<close> is bound (line 120) before \<^verbatim>\<open>set_datadir\<close> is called (line 166).
\<close>

theorem stage_order_counterexample:
  "\<not> in_order spec_rank (trace_of (mcc180_init lab_env lab_store))"
  by (simp add: lab_run trace_of_def session_of_def final_def in_order_def stages_complete)

text \<open>
  Claim C3, amended. In every run, whatever raises, the stages come in the order of the
  script's sections: configuration assembly, then environment setup, then session
  construction, then hydration; and the run in the lab environment goes through all four.
\<close>

theorem stage_order:
  "in_order script_rank (trace_of (mcc180_init env d)) \<and>
   remdups (stages (trace_of (mcc180_init lab_env lab_store))) =
     [Configuration, Environment, Construction, Hydration]"
proof
  have "prefix (stages (trace_of (mcc180_init env d))) (stages (complete_trace env RO_settings))"
    unfolding stages_def mcc180_init_def by (intro prefix_map_filter run_prefix)
  then have "prefix (map script_rank (stages (trace_of (mcc180_init env d))))
      (map script_rank (stages (complete_trace env RO_settings)))"
    by (rule map_mono_prefix)
  moreover have "sorted (map script_rank (stages (complete_trace env RO_settings)))"
    by (simp add: stages_complete sorted_append)
  ultimately show "in_order script_rank (trace_of (mcc180_init env d))"
    unfolding in_order_def by (rule prefix_sorted)
  show "remdups (stages (trace_of (mcc180_init lab_env lab_store))) =
     [Configuration, Environment, Construction, Hydration]"
    by (simp add: lab_run trace_of_def session_of_def final_def stages_complete eval_nat_numeral)
qed

text \<open>
  Claim C4, as stated: connect, then reset, then query and report the system status. The
  run in the lab environment refutes it.
\<close>

theorem cluster_bootstrap_order_counterexample:
  "cluster_steps (trace_of (mcc180_init lab_env lab_store)) \<noteq> [Connect, Reset, Status, Report]"
  by (simp add: lab_run trace_of_def session_of_def final_def cluster_steps_complete)

text \<open>
  Claim C4, amended. In every run the steps of the cluster session come in the order
  connect to \<^verbatim>\<open>clusterA\<close> at 192.0.2.142, query its system state, print it, reset; a run
  that completes has made exactly these four, on the object the connection returned.
\<close>

theorem cluster_bootstrap_order:
  "prefix (cluster_steps (trace_of (mcc180_init env d))) [Connect, Status, Report, Reset] \<and>
   (completed (mcc180_init env d) \<longrightarrow>
      cluster_events (trace_of (mcc180_init env d)) =
        [Call ''Cluster'' [VStr ''clusterA'', VStr ''192.0.2.142''],
         Method 0 ''get_system_state'' [],
         Print [VStr (''CMM system status is '' @ [CHR 0x0A]), system_state env],
         Method 0 ''reset'' []])"
proof (intro conjI impI)
  have "prefix (cluster_steps (trace_of (mcc180_init env d)))
      (cluster_steps (complete_trace env RO_settings))"
    unfolding cluster_steps_def mcc180_init_def by (intro prefix_map_filter run_prefix)
  then show "prefix (cluster_steps (trace_of (mcc180_init env d)))
      [Connect, Status, Report, Reset]"
    by (simp add: cluster_steps_complete)
next
  assume "completed (mcc180_init env d)"
  then obtain d' where "mcc180_init env d = Inr ((), final env RO_settings d')"
    unfolding mcc180_init_def by (blast dest: completed_run)
  then show "cluster_events (trace_of (mcc180_init env d)) =
        [Call ''Cluster'' [VStr ''clusterA'', VStr ''192.0.2.142''],
         Method 0 ''get_system_state'' [],
         Print [VStr (''CMM system status is '' @ [CHR 0x0A]), system_state env],
         Method 0 ''reset'' []]"
    by (simp add: trace_of_def session_of_def final_def cluster_events_complete)
qed

theorem cluster_bootstrap_order_witness:
  "completed (mcc180_init lab_env lab_store) \<and>
   cluster_events (trace_of (mcc180_init lab_env lab_store)) =
        [Call ''Cluster'' [VStr ''clusterA'', VStr ''192.0.2.142''],
         Method 0 ''get_system_state'' [],
         Print [VStr (''CMM system status is '' @ [CHR 0x0A]), VStr ''OKAY''],
         Method 0 ''reset'' []]"
  using cluster_bootstrap_order [of lab_env lab_store] lab_completed
  by (simp add: lab_env_def)

subsection \<open>The data directory\<close>

text \<open>
  Claim C7. The script calls \<^verbatim>\<open>set_datadir\<close> at most once, and only with the path join of
  the home directory and \<^verbatim>\<open>quantify-data\<close>; a run that completes has made that call, and
  the data directory then registered is that path.
\<close>

theorem datadir_is_home_quantify_data:
  "prefix (args_of ''set_datadir'' (trace_of (mcc180_init env d)))
      [[VStr (path_join env (home env) ''quantify-data'')]] \<and>
   (completed (mcc180_init env d) \<longrightarrow>
      args_of ''set_datadir'' (trace_of (mcc180_init env d)) =
        [[VStr (path_join env (home env) ''quantify-data'')]] \<and>
      datadir (store (session_of (mcc180_init env d))) =
        Some (path_join env (home env) ''quantify-data''))"
proof (intro conjI impI)
  have "prefix (args_of ''set_datadir'' (trace_of (mcc180_init env d)))
      (args_of ''set_datadir'' (complete_trace env RO_settings))"
    unfolding args_of_def mcc180_init_def by (intro prefix_map_filter run_prefix)
  then show "prefix (args_of ''set_datadir'' (trace_of (mcc180_init env d)))
      [[VStr (path_join env (home env) ''quantify-data'')]]"
    by (simp add: args_of_set_datadir datadir_path_def)
next
  assume "completed (mcc180_init env d)"
  then obtain d' where d': "setup_datadir env (home env) d = Inr d'"
    and r: "mcc180_init env d = Inr ((), final env RO_settings d')"
    unfolding mcc180_init_def by (blast dest: completed_run)
  from r show "args_of ''set_datadir'' (trace_of (mcc180_init env d)) =
        [[VStr (path_join env (home env) ''quantify-data'')]]"
    by (simp add: trace_of_def session_of_def final_def args_of_set_datadir datadir_path_def)
  from d' have "datadir d' = Some (path_join env (home env) ''quantify-data'')"
    by (auto simp: setup_datadir_def set_datadir_def datadir_path_def split: if_splits)
  with r show "datadir (store (session_of (mcc180_init env d))) =
        Some (path_join env (home env) ''quantify-data'')"
    by (simp add: session_of_def final_def)
qed

theorem datadir_is_home_quantify_data_witness:
  "completed (mcc180_init lab_env lab_store) \<and>
   home lab_env = ''/home/lab'' \<and>
   datadir (store (session_of (mcc180_init lab_env lab_store))) =
     Some ''/home/lab/quantify-data''"
  using datadir_is_home_quantify_data [of lab_env lab_store] lab_completed
  by (simp add: lab_env_def posix_join_def)

text \<open>
  Claim C6. The setup step is idempotent: when it has succeeded for a base path, running
  it again with the same base path succeeds, leaves the store as it is, and the
  registered data directory is the same resolved path.
\<close>

theorem setup_datadir_idempotent:
  assumes "setup_datadir env base d = Inr d'"
  shows "setup_datadir env base d' = Inr d' \<and> get_datadir d' = Inr (datadir_path env base)"
  using assms
  by (auto simp: setup_datadir_def set_datadir_def get_datadir_def insert_absorb split: if_splits)

theorem setup_datadir_idempotent_witness:
  "setup_datadir lab_env ''/home/lab'' lab_store = Inr lab_store' \<and>
   setup_datadir lab_env ''/home/lab'' lab_store' = Inr lab_store' \<and>
   get_datadir lab_store' = Inr ''/home/lab/quantify-data''"
proof -
  have 1: "setup_datadir lab_env ''/home/lab'' lab_store = Inr lab_store'"
    using lab_setup by (simp add: lab_env_def)
  have 2: "datadir_path lab_env ''/home/lab'' = ''/home/lab/quantify-data''"
    by (simp add: datadir_path_def lab_env_def posix_join_def)
  from setup_datadir_idempotent [OF 1] 1 2 show ?thesis by simp
qed

subsection \<open>The session objects\<close>

text \<open>
  Claim C8. The only calls the script makes on the \<^verbatim>\<open>quantum_device\<close> object are, in this
  order, \<^verbatim>\<open>instr_measurement_control\<close>, \<^verbatim>\<open>instr_instrument_coordinator\<close>, \<^verbatim>\<open>hardware_config\<close>
  and \<^verbatim>\<open>add_element\<close>. In a run that completes, the first two were given the name strings
  of the objects bound to \<^verbatim>\<open>meas_ctrl\<close> and \<^verbatim>\<open>instrument_coordinator\<close> (strings, not
  references), the third was given \<^verbatim>\<open>hardware_cfg\<close>, and the elements handed to
  \<^verbatim>\<open>add_element\<close> are exactly the elements of \<^verbatim>\<open>list_of_qubits\<close>.
\<close>

theorem quantum_device_bindings:
  "prefix (calls_on 9 (trace_of (mcc180_init env d)))
     [(''instr_measurement_control'', [VStr ''meas_ctrl'']),
      (''instr_instrument_coordinator'', [VStr ''instrument_coordinator'']),
      (''hardware_config'', [hardware_cfg]),
      (''add_element'', [VRef 8])] \<and>
   (completed (mcc180_init env d) \<longrightarrow>
     (let s = session_of (mcc180_init env d) in
        object_of s ''quantum_device'' =
          Some (9, \<lparr>cls = ''QuantumDevice'', args = [VStr ''quantum_device'']\<rparr>) \<and>
        map_option (name_of \<circ> snd) (object_of s ''meas_ctrl'') =
          Some (Some (VStr ''meas_ctrl'')) \<and>
        map_option (name_of \<circ> snd) (object_of s ''instrument_coordinator'') =
          Some (Some (VStr ''instrument_coordinator'')) \<and>
        map_of (globals s) ''hardware_cfg'' = Some hardware_cfg \<and>
        parameter_calls 9 (trace s) =
          [(''instr_measurement_control'', [VStr ''meas_ctrl'']),
           (''instr_instrument_coordinator'', [VStr ''instrument_coordinator'']),
           (''hardware_config'', [hardware_cfg])] \<and>
        configured_elements s = [VRef 8] \<and>
        registered_elements 9 (trace s) = configured_elements s))"
proof (intro conjI impI)
  have "prefix (calls_on 9 (trace_of (mcc180_init env d)))
      (calls_on 9 (complete_trace env RO_settings))"
    unfolding calls_on_def mcc180_init_def by (intro prefix_map_filter run_prefix)
  then show "prefix (calls_on 9 (trace_of (mcc180_init env d)))
     [(''instr_measurement_control'', [VStr ''meas_ctrl'']),
      (''instr_instrument_coordinator'', [VStr ''instrument_coordinator'']),
      (''hardware_config'', [hardware_cfg]),
      (''add_element'', [VRef 8])]"
    by (simp add: calls_on_quantum_device)
next
  assume "completed (mcc180_init env d)"
  then obtain d' where r: "mcc180_init env d = Inr ((), final env RO_settings d')"
    unfolding mcc180_init_def by (blast dest: completed_run)
  have "map_of (globals (final env RO_settings d')) ''hardware_cfg'' = Some hardware_cfg"
    "configured_elements (final env RO_settings d') = [VRef 8]"
    by (simp_all add: final_def globals_defs configured_elements_def)
  with r show "let s = session_of (mcc180_init env d) in
        object_of s ''quantum_device'' =
          Some (9, \<lparr>cls = ''QuantumDevice'', args = [VStr ''quantum_device'']\<rparr>) \<and>
        map_option (name_of \<circ> snd) (object_of s ''meas_ctrl'') =
          Some (Some (VStr ''meas_ctrl'')) \<and>
        map_option (name_of \<circ> snd) (object_of s ''instrument_coordinator'') =
          Some (Some (VStr ''instrument_coordinator'')) \<and>
        map_of (globals s) ''hardware_cfg'' = Some hardware_cfg \<and>
        parameter_calls 9 (trace s) =
          [(''instr_measurement_control'', [VStr ''meas_ctrl'']),
           (''instr_instrument_coordinator'', [VStr ''instrument_coordinator'']),
           (''hardware_config'', [hardware_cfg])] \<and>
        configured_elements s = [VRef 8] \<and>
        registered_elements 9 (trace s) = configured_elements s"
    by (simp add: session_of_def final_objects final_simps calls_on_quantum_device
        quantum_device_object_def name_of_def parameter_calls_def registered_elements_def
        List.map_filter_def)
qed

theorem quantum_device_bindings_witness:
  "completed (mcc180_init lab_env lab_store) \<and>
   parameter_calls 9 (trace_of (mcc180_init lab_env lab_store)) =
          [(''instr_measurement_control'', [VStr ''meas_ctrl'']),
           (''instr_instrument_coordinator'', [VStr ''instrument_coordinator'']),
           (''hardware_config'', [hardware_cfg])] \<and>
   registered_elements 9 (trace_of (mcc180_init lab_env lab_store)) = [VRef 8]"
  using quantum_device_bindings [of lab_env lab_store] lab_completed
  by (simp add: Let_def trace_of_def)

text \<open>
  Claim C9. The script constructs at most two \<^verbatim>\<open>MeasurementControl\<close> objects, named
  \<^verbatim>\<open>meas_ctrl\<close> and \<^verbatim>\<open>nested_meas_ctrl\<close>. In a run that completes there are exactly these
  two, and the only call on each is \<^verbatim>\<open>instr_plotmon\<close> with a name string: \<^verbatim>\<open>plotmon\<close>, the
  name of the \<^verbatim>\<open>PlotMonitor_pyqt\<close> object bound to \<^verbatim>\<open>plotmon\<close>, for the first, and
  \<^verbatim>\<open>plotmon_nested\<close>, the name of the one bound to \<^verbatim>\<open>plotmon_nested\<close>, for the second.
\<close>

theorem two_measurement_controls:
  "prefix (args_of ''MeasurementControl'' (trace_of (mcc180_init env d)))
      [[VStr ''meas_ctrl''], [VStr ''nested_meas_ctrl'']] \<and>
   (completed (mcc180_init env d) \<longrightarrow>
     (let s = session_of (mcc180_init env d) in
        args_of ''MeasurementControl'' (trace s) =
          [[VStr ''meas_ctrl''], [VStr ''nested_meas_ctrl'']] \<and>
        filter (\<lambda>obj. cls obj = ''MeasurementControl'') (heap s) =
          [\<lparr>cls = ''MeasurementControl'', args = [VStr ''meas_ctrl'']\<rparr>,
           \<lparr>cls = ''MeasurementControl'', args = [VStr ''nested_meas_ctrl'']\<rparr>] \<and>
        object_of s ''meas_ctrl'' =
          Some (3, \<lparr>cls = ''MeasurementControl'', args = [VStr ''meas_ctrl'']\<rparr>) \<and>
        object_of s ''nested_meas_ctrl'' =
          Some (4, \<lparr>cls = ''MeasurementControl'', args = [VStr ''nested_meas_ctrl'']\<rparr>) \<and>
        object_of s ''plotmon'' =
          Some (5, \<lparr>cls = ''PlotMonitor_pyqt'', args = [VStr ''plotmon'']\<rparr>) \<and>
        object_of s ''plotmon_nested'' =
          Some (6, \<lparr>cls = ''PlotMonitor_pyqt'', args = [VStr ''plotmon_nested'']\<rparr>) \<and>
        calls_on 3 (trace s) = [(''instr_plotmon'', [VStr ''plotmon''])] \<and>
        calls_on 4 (trace s) = [(''instr_plotmon'', [VStr ''plotmon_nested''])]))"
proof (intro conjI impI)
  have "prefix (args_of ''MeasurementControl'' (trace_of (mcc180_init env d)))
      (args_of ''MeasurementControl'' (complete_trace env RO_settings))"
    unfolding args_of_def mcc180_init_def by (intro prefix_map_filter run_prefix)
  then show "prefix (args_of ''MeasurementControl'' (trace_of (mcc180_init env d)))
      [[VStr ''meas_ctrl''], [VStr ''nested_meas_ctrl'']]"
    by (simp add: args_of_MeasurementControl)
next
  assume "completed (mcc180_init env d)"
  then obtain d' where r: "mcc180_init env d = Inr ((), final env RO_settings d')"
    unfolding mcc180_init_def by (blast dest: completed_run)
  have "filter (\<lambda>obj. cls obj = ''MeasurementControl'') (heap (final env RO_settings d')) =
          [\<lparr>cls = ''MeasurementControl'', args = [VStr ''meas_ctrl'']\<rparr>,
           \<lparr>cls = ''MeasurementControl'', args = [VStr ''nested_meas_ctrl'']\<rparr>]"
    by (simp add: final_def instruments_def quantum_device_object_def)
  with r show "let s = session_of (mcc180_init env d) in
        args_of ''MeasurementControl'' (trace s) =
          [[VStr ''meas_ctrl''], [VStr ''nested_meas_ctrl'']] \<and>
        filter (\<lambda>obj. cls obj = ''MeasurementControl'') (heap s) =
          [\<lparr>cls = ''MeasurementControl'', args = [VStr ''meas_ctrl'']\<rparr>,
           \<lparr>cls = ''MeasurementControl'', args = [VStr ''nested_meas_ctrl'']\<rparr>] \<and>
        object_of s ''meas_ctrl'' =
          Some (3, \<lparr>cls = ''MeasurementControl'', args = [VStr ''meas_ctrl'']\<rparr>) \<and>
        object_of s ''nested_meas_ctrl'' =
          Some (4, \<lparr>cls = ''MeasurementControl'', args = [VStr ''nested_meas_ctrl'']\<rparr>) \<and>
        object_of s ''plotmon'' =
          Some (5, \<lparr>cls = ''PlotMonitor_pyqt'', args = [VStr ''plotmon'']\<rparr>) \<and>
        object_of s ''plotmon_nested'' =
          Some (6, \<lparr>cls = ''PlotMonitor_pyqt'', args = [VStr ''plotmon_nested'']\<rparr>) \<and>
        calls_on 3 (trace s) = [(''instr_plotmon'', [VStr ''plotmon''])] \<and>
        calls_on 4 (trace s) = [(''instr_plotmon'', [VStr ''plotmon_nested''])]"
    by (simp add: session_of_def final_objects final_simps calls_on_meas_ctrl
        args_of_MeasurementControl)
qed

theorem two_measurement_controls_witness:
  "completed (mcc180_init lab_env lab_store) \<and>
   args_of ''MeasurementControl'' (trace_of (mcc180_init lab_env lab_store)) =
     [[VStr ''meas_ctrl''], [VStr ''nested_meas_ctrl'']] \<and>
   calls_on 3 (trace_of (mcc180_init lab_env lab_store)) =
     [(''instr_plotmon'', [VStr ''plotmon''])] \<and>
   calls_on 4 (trace_of (mcc180_init lab_env lab_store)) =
     [(''instr_plotmon'', [VStr ''plotmon_nested''])]"
  using two_measurement_controls [of lab_env lab_store] lab_completed
  by (simp add: Let_def trace_of_def)

subsection \<open>The loop over the device elements\<close>

text \<open>
  Claim C2, as stated: the loop attempts hydration once per configured element. The run
  in the lab environment refutes it: \<^verbatim>\<open>list_of_qubits\<close> holds one element and
  \<^verbatim>\<open>load_settings_onto_instrument\<close> is never called.
\<close>

theorem hydration_attempts_counterexample:
  "hydration_attempts (trace_of (mcc180_init lab_env lab_store)) \<noteq>
     length (configured_elements (session_of (mcc180_init lab_env lab_store)))"
  by (simp add: lab_run trace_of_def session_of_def final_simps configured_elements_def
      globals_defs hydration_attempts_def args_of_def List.map_filter_def trace_defs)

text \<open>
  Claim C2, amended. For every list of elements, from a session in which
  \<^verbatim>\<open>quantum_device\<close> is bound to an object, the loop makes no hydration attempt at all,
  whatever raises; and when no \<^verbatim>\<open>add_element\<close> call raises, it completes and has handed
  every element of the list, in order, to \<^verbatim>\<open>add_element\<close> of that object.
\<close>

theorem hydration_loop:
  assumes "map_of (globals s) ''quantum_device'' = Some (VRef qd)"
  shows "hydration_attempts (trace_of (for_qubit env qs s)) = hydration_attempts (trace s) \<and>
     ((\<forall>q \<in> set qs. \<not> raises env (Method qd ''add_element'' [q])) \<longrightarrow>
        completed (for_qubit env qs s) \<and>
        registered_elements qd (trace_of (for_qubit env qs s)) =
          registered_elements qd (trace s) @ qs)"
  using for_qubit_attempts for_qubit_registers [OF assms] by blast

theorem hydration_loop_witness:
  "completed (for_qubit lab_env [VRef 1, VRef 2] two_qubits) \<and>
   registered_elements 0 (trace_of (for_qubit lab_env [VRef 1, VRef 2] two_qubits)) =
     [VRef 1, VRef 2] \<and>
   hydration_attempts (trace_of (for_qubit lab_env [VRef 1, VRef 2] two_qubits)) = 0"
proof -
  have g: "map_of (globals two_qubits) ''quantum_device'' = Some (VRef 0)"
    by (simp add: two_qubits_def)
  have r: "\<forall>q \<in> set [VRef 1, VRef 2]. \<not> raises lab_env (Method 0 ''add_element'' [q])"
    by (simp add: lab_env_def)
  have t: "trace two_qubits = []" by (simp add: two_qubits_def)
  from hydration_loop [OF g, of lab_env "[VRef 1, VRef 2]"] r t show ?thesis
    by (simp add: hydration_attempts_def args_of_def registered_elements_def calls_on_def
        List.map_filter_def)
qed

subsection \<open>The constant \<^verbatim>\<open>RO_settings\<close>\<close>

text \<open>
  Claim C10. The value of \<^verbatim>\<open>RO_settings\<close> has no influence: for any two values, in any
  environment and from any store, the run with the second is the run with the first
  with the value replaced in the binding of \<^verbatim>\<open>RO_settings\<close> and in the event of its
  assignment. So both runs complete or both end at the same exception, with the same
  objects, the same store and data directory, the same other globals (\<^verbatim>\<open>hardware_cfg\<close>
  among them) and the same other events.
\<close>

theorem RO_settings_dead:
  "bootstrap env ro' d = relabel_result ro' (bootstrap env ro d) \<and>
   completed (bootstrap env ro' d) = completed (bootstrap env ro d) \<and>
   heap (session_of (bootstrap env ro' d)) = heap (session_of (bootstrap env ro d)) \<and>
   store (session_of (bootstrap env ro' d)) = store (session_of (bootstrap env ro d)) \<and>
   AList.delete ''RO_settings'' (globals (session_of (bootstrap env ro' d))) =
     AList.delete ''RO_settings'' (globals (session_of (bootstrap env ro d))) \<and>
   filter (\<lambda>ev. \<not> is_RO_assign ev) (trace_of (bootstrap env ro' d)) =
     filter (\<lambda>ev. \<not> is_RO_assign ev) (trace_of (bootstrap env ro d))"
  unfolding bootstrap_relabel [of env ro' d ro] trace_of_def
  by (simp add: session_of_relabel completed_relabel delete_relabel filter_relabel)

end
